theory Spec2Isabelle
  imports Complex_Main
begin

section \<open>Python and numpy outcomes\<close>

text \<open>
  Exceptions of the source are values. Each constructor is the Python exception class that
  the source (or numpy underneath it) raises; the string of \<open>RuntimeError\<close> and
  \<open>ValueError\<close> is the constant part of the message, which tells the raise sites apart.
\<close>

datatype py_error =
    IndexError
  | ZeroDivisionError
  | AssertionError
  | AttributeError
  | LinAlgError
  | TypeError
  | RuntimeError string
  | ValueError string

text \<open>Sequencing of a computation that may raise: the first exception wins.\<close>

definition bind_err :: "py_error + 'a \<Rightarrow> ('a \<Rightarrow> py_error + 'b) \<Rightarrow> py_error + 'b" where
  "bind_err m f = (case m of Inl e \<Rightarrow> Inl e | Inr x \<Rightarrow> f x)"

section \<open>Labelling error rate (\<open>odin/backend/metrics.py\<close>)\<close>

subsection \<open>\<open>LevenshteinDistance\<close>\<close>

text \<open>
  The body of the inner \<open>for index1, char1 in enumerate(s1)\<close> loop: one value is appended to
  \<open>newDistances\<close>; \<open>newDistances[-1]\<close> is the last element of a list that is never empty.
\<close>

definition lev_inner :: "'a \<Rightarrow> nat list \<Rightarrow> nat \<times> 'a \<Rightarrow> nat list \<Rightarrow> nat list" where
  "lev_inner char2 distances = (\<lambda>(index1, char1) newDistances.
     if char1 = char2 then newDistances @ [distances ! index1]
     else newDistances @ [1 + min (distances ! index1)
                                 (min (distances ! (index1 + 1)) (last newDistances))])"

text \<open>The body of the outer \<open>for index2, char2 in enumerate(s2)\<close> loop.\<close>

definition lev_outer :: "'a list \<Rightarrow> nat \<times> 'a \<Rightarrow> nat list \<Rightarrow> nat list" where
  "lev_outer s1 = (\<lambda>(index2, char2) distances.
     fold (lev_inner char2 distances) (enumerate 0 s1) [index2 + 1])"

definition LevenshteinDistance :: "'a list \<Rightarrow> 'a list \<Rightarrow> nat" where
  "LevenshteinDistance s1 s2 =
     (let (s1, s2) = (if length s1 > length s2 then (s2, s1) else (s1, s2));
          distances = fold (lev_outer s1) (enumerate 0 s2) [0 ..< length s1 + 1]
      in last distances)"

text \<open>
  The edit distance as the textbook dynamic program defines it, for comparison with the
  code: \<open>lev a b i j\<close> is the distance between the first \<open>i\<close> items of \<open>a\<close> and the
  first \<open>j\<close> items of \<open>b\<close>; a deletion, an insertion and a substitution cost 1 each.
\<close>

fun lev :: "'a list \<Rightarrow> 'a list \<Rightarrow> nat \<Rightarrow> nat \<Rightarrow> nat" where
  "lev a b 0 j = j"
| "lev a b (Suc i) 0 = Suc i"
| "lev a b (Suc i) (Suc j) =
     min (min (lev a b i (Suc j) + 1) (lev a b (Suc i) j + 1))
         (lev a b i j + (if a ! i = b ! j then 0 else 1))"

definition edit_distance :: "'a list \<Rightarrow> 'a list \<Rightarrow> nat" where
  "edit_distance a b = lev a b (length a) (length b)"


subsection \<open>\<open>LER\<close>\<close>

text \<open>
  \<open>LER\<close> looks at \<open>y_true[0]\<close>: when it has no \<open>__len__\<close> or is a \<open>str\<close>, the argument is one
  sequence of labels (\<open>Flat\<close>) and is wrapped into a list of one sequence; otherwise the
  argument already is a list of sequences (\<open>Nested\<close>). \<open>y_true[0]\<close> of an empty argument
  raises \<open>IndexError\<close>.
\<close>

datatype 'a seqs = Flat "'a list" | Nested "'a list list"

fun as_batch :: "'a seqs \<Rightarrow> py_error + 'a list list" where
  "as_batch (Flat []) = Inl IndexError"
| "as_batch (Flat (x # xs)) = Inr [x # xs]"
| "as_batch (Nested []) = Inl IndexError"
| "as_batch (Nested (s # ss)) = Inr (s # ss)"

text \<open>
  The loop over \<open>zip(y_true, y_pred)\<close>. Both operands of \<open>/\<close> are Python integers, so a
  reference sequence of length 0 raises \<open>ZeroDivisionError\<close>. Floating-point quotients are
  modelled as exact reals.
\<close>

fun ler_results :: "('a list \<times> 'a list) list \<Rightarrow> py_error + real list" where
  "ler_results [] = Inr []"
| "ler_results ((ytrue, ypred) # ps) =
     (if length ytrue = 0 then Inl ZeroDivisionError
      else bind_err (ler_results ps) (\<lambda>rs.
             Inr (real (LevenshteinDistance ytrue ypred) / real (length ytrue) # rs)))"

datatype ler_value = Mean real | PerPair "real list"

text \<open>
  \<open>np.mean\<close> of the results. The list is never empty here: once \<open>as_batch\<close> has
  succeeded on both arguments, each has a first sequence, and so has their \<open>zip\<close>.
\<close>

definition np_mean :: "real list \<Rightarrow> real" where
  "np_mean xs = sum_list xs / real (length xs)"

definition LER :: "'a seqs \<Rightarrow> 'a seqs \<Rightarrow> bool \<Rightarrow> py_error + ler_value" where
  "LER y_true y_pred return_mean =
     bind_err (as_batch y_true) (\<lambda>yt.
     bind_err (as_batch y_pred) (\<lambda>yp.
     bind_err (ler_results (zip yt yp)) (\<lambda>results.
       if return_mean then Inr (Mean (np_mean results)) else Inr (PerPair results))))"

section \<open>Detection error trade-off (\<open>det_curve\<close>)\<close>

text \<open>
  Scores are floating-point numbers in the source and exact reals here. A float array
  divided by the Python integer 0 gives \<open>nan\<close> or \<open>inf\<close> entries and a warning, never an
  exception; \<open>None\<close> stands for such a non-finite entry.
\<close>

definition np_divide :: "real \<Rightarrow> real \<Rightarrow> real option" where
  "np_divide x y = (if y = 0 then None else Some (x / y))"

text \<open>
  \<open>np.argsort(..., kind='mergsort')\<close>: numpy reads the first letter of \<open>kind\<close>, so this is
  the stable merge sort. A stable sort has one result only, computed here by the stable
  insertion sort \<open>sort_key\<close> on the values paired with their positions.
\<close>

definition argsort :: "'a::linorder list \<Rightarrow> nat list" where
  "argsort xs = map snd (sort_key fst (zip xs [0 ..< length xs]))"

fun cumsum_from :: "real \<Rightarrow> real list \<Rightarrow> real list" where
  "cumsum_from acc [] = []"
| "cumsum_from acc (x # xs) = (acc + x) # cumsum_from (acc + x) xs"

definition cumsum :: "real list \<Rightarrow> real list" where
  "cumsum xs = cumsum_from 0 xs"

text \<open>Indexing with a boolean mask, \<open>a[mask]\<close>: the mask must be as long as the array.\<close>

definition mask_select :: "'a list \<Rightarrow> bool list \<Rightarrow> py_error + 'a list" where
  "mask_select xs msk =
     (if length msk \<noteq> length xs then Inl IndexError
      else Inr (map fst (filter snd (zip xs msk))))"

text \<open>
  The preprocessing branch of \<open>det_curve\<close>: the true and false scores are the ones given,
  or are cut out of \<open>y_score\<close> by the labels \<open>y_true\<close>.
\<close>

definition det_scores ::
  "int list option \<Rightarrow> real list option \<Rightarrow> int option \<Rightarrow> real list option \<Rightarrow> real list option
   \<Rightarrow> py_error + (real list \<times> real list)" where
  "det_scores y_true y_score pos_label true_scores false_scores =
     (case (true_scores, false_scores) of
        (Some ts, Some fs) \<Rightarrow> Inr (ts, fs)
      | _ \<Rightarrow>
        (case (y_true, y_score) of
           (Some yt, Some ys) \<Rightarrow>
             (let pos = (case pos_label of None \<Rightarrow> 1 | Some p \<Rightarrow> p) in
              bind_err (case true_scores of
                          None \<Rightarrow> mask_select ys (map (\<lambda>t. t = pos) yt)
                        | Some ts \<Rightarrow> Inr ts) (\<lambda>ts.
              bind_err (case false_scores of
                          None \<Rightarrow> mask_select ys (map (\<lambda>t. t \<noteq> pos) yt)
                        | Some fs \<Rightarrow> Inr fs) (\<lambda>fs.
              if length fs + length ts \<noteq> length yt
              then Inl (RuntimeError ''positive and negative samples do not add up'')
              else Inr (ts, fs))))
         | _ \<Rightarrow> Inl (ValueError ''y_true and y_score must be specified'')))"

text \<open>
  The body of \<open>det_curve\<close> from \<open># ====== start\<close> on, for one-dimensional score arrays
  (\<open>max(a.shape)\<close> is then the length). A row of \<open>scores\<close> is a pair of a score and its
  0/1 class mark. The returned \<open>threshold\<close> is \<open>scores[0, :]\<close>, the first row of the
  sorted array, which raises \<open>IndexError\<close> when there is no row.
\<close>

definition det_rates ::
  "real list \<Rightarrow> real list \<Rightarrow> py_error + (real option list \<times> real option list \<times> real list)" where
  "det_rates true_scores false_scores =
     (let nb_true = length true_scores;
          nb_false = length false_scores;
          total = nb_true + nb_false;
          scores0 = map (\<lambda>x. (x, 0)) false_scores @ map (\<lambda>x. (x, 1)) true_scores;
          idx1 = argsort (map snd scores0);
          idx = map (\<lambda>k. idx1 ! k) (argsort (map fst scores0));
          scores = map (\<lambda>k. scores0 ! k) idx;
          sumtrue = cumsum (map snd scores);
          sumfalse = map (\<lambda>(k, s). real nb_false - (real k - s)) (zip [1 ..< total + 1] sumtrue);
          Pmiss = map (\<lambda>s. np_divide s (real nb_true)) sumtrue;
          Pfa = map (\<lambda>s. np_divide s (real nb_false)) sumfalse
      in case scores of
           [] \<Rightarrow> Inl IndexError
         | (score, mark) # _ \<Rightarrow> Inr (Pmiss, Pfa, [score, mark]))"

definition det_curve ::
  "int list option \<Rightarrow> real list option \<Rightarrow> int option \<Rightarrow> real list option \<Rightarrow> real list option
   \<Rightarrow> py_error + (real option list \<times> real option list \<times> real list)" where
  "det_curve y_true y_score pos_label true_scores false_scores =
     bind_err (det_scores y_true y_score pos_label true_scores false_scores)
       (\<lambda>(ts, fs). det_rates ts fs)"

section \<open>Dense matrices\<close>

text \<open>
  A two-dimensional numpy array of floats: its rows, and its number of columns (which
  an array with no row still has). Every row of a matrix has \<open>ncols\<close> entries.
\<close>

record mat =
  ncols :: nat
  rows :: "real list list"

definition nrows :: "mat \<Rightarrow> nat" where
  "nrows M = length (rows M)"

text \<open>An integer index into an axis of length \<open>n\<close>; a negative one counts from the end.\<close>

definition norm_index :: "nat \<Rightarrow> int \<Rightarrow> py_error + nat" where
  "norm_index n i =
     (if 0 \<le> i \<and> i < int n then Inr (nat i)
      else if - int n \<le> i \<and> i < 0 then Inr (nat (int n + i))
      else Inl IndexError)"

text \<open>\<open>M[msk, j]\<close>: column \<open>j\<close> of the rows that a boolean mask selects.\<close>

definition masked_column :: "mat \<Rightarrow> bool list \<Rightarrow> int \<Rightarrow> py_error + real list" where
  "masked_column M msk j =
     (if length msk \<noteq> nrows M then Inl IndexError
      else bind_err (norm_index (ncols M) j) (\<lambda>c.
             Inr (map (\<lambda>r. r ! c) (map fst (filter snd (zip (rows M) msk))))))"

definition entry :: "mat \<Rightarrow> nat \<Rightarrow> nat \<Rightarrow> real" where
  "entry M i j = rows M ! i ! j"

definition mk_mat :: "nat \<Rightarrow> nat \<Rightarrow> (nat \<Rightarrow> nat \<Rightarrow> real) \<Rightarrow> mat" where
  "mk_mat r c f = \<lparr>ncols = c, rows = map (\<lambda>i. map (\<lambda>j. f i j) [0 ..< c]) [0 ..< r]\<rparr>"

definition zeros :: "nat \<Rightarrow> nat \<Rightarrow> mat" where
  "zeros r c = mk_mat r c (\<lambda>i j. 0)"

definition eye :: "nat \<Rightarrow> mat" where
  "eye n = mk_mat n n (\<lambda>i j. if i = j then 1 else 0)"

definition transpose_mat :: "mat \<Rightarrow> mat" where
  "transpose_mat M = mk_mat (ncols M) (nrows M) (\<lambda>i j. entry M j i)"

definition smult :: "real \<Rightarrow> mat \<Rightarrow> mat" where
  "smult c M = mk_mat (nrows M) (ncols M) (\<lambda>i j. c * entry M i j)"

text \<open>\<open>np.dot\<close> of two matrices, and of a matrix and a vector: the inner sizes must agree.\<close>

definition np_dot :: "mat \<Rightarrow> mat \<Rightarrow> py_error + mat" where
  "np_dot A B =
     (if ncols A \<noteq> nrows B then Inl (ValueError ''shapes not aligned'')
      else Inr (mk_mat (nrows A) (ncols B)
                  (\<lambda>i j. \<Sum>k\<leftarrow>[0 ..< ncols A]. entry A i k * entry B k j)))"

definition np_dot_vec :: "mat \<Rightarrow> real list \<Rightarrow> py_error + real list" where
  "np_dot_vec A v =
     (if ncols A \<noteq> length v then Inl (ValueError ''shapes not aligned'')
      else Inr (map (\<lambda>i. \<Sum>k\<leftarrow>[0 ..< ncols A]. entry A i k * v ! k) [0 ..< nrows A]))"

text \<open>
  Elementwise arithmetic broadcasts: along each axis the two sizes are equal, or one of
  them is 1 and that operand is repeated.
\<close>

definition bcast_dim :: "nat \<Rightarrow> nat \<Rightarrow> nat option" where
  "bcast_dim a b = (if a = b then Some a else if a = 1 then Some b else if b = 1 then Some a else None)"

definition bcast_entry :: "mat \<Rightarrow> nat \<Rightarrow> nat \<Rightarrow> real" where
  "bcast_entry M i j = entry M (if nrows M = 1 then 0 else i) (if ncols M = 1 then 0 else j)"

definition np_elementwise :: "(real \<Rightarrow> real \<Rightarrow> real) \<Rightarrow> mat \<Rightarrow> mat \<Rightarrow> py_error + mat" where
  "np_elementwise f A B =
     (case (bcast_dim (nrows A) (nrows B), bcast_dim (ncols A) (ncols B)) of
        (Some r, Some c) \<Rightarrow> Inr (mk_mat r c (\<lambda>i j. f (bcast_entry A i j) (bcast_entry B i j)))
      | _ \<Rightarrow> Inl (ValueError ''operands could not be broadcast together''))"

text \<open>
  Storing into an existing array (\<open>E += A\<close>, \<open>T[ix] = A\<close>, \<open>E[i, :] = v\<close>) broadcasts the
  value to the shape of the target, which does not change.
\<close>

definition broadcast_to :: "nat \<Rightarrow> nat \<Rightarrow> mat \<Rightarrow> py_error + mat" where
  "broadcast_to r c A =
     (if (nrows A = r \<or> nrows A = 1) \<and> (ncols A = c \<or> ncols A = 1)
      then Inr (mk_mat r c (bcast_entry A))
      else Inl (ValueError ''could not broadcast input array''))"

definition np_iadd :: "mat \<Rightarrow> mat \<Rightarrow> py_error + mat" where
  "np_iadd E A =
     bind_err (broadcast_to (nrows E) (ncols E) A) (\<lambda>B.
       Inr (mk_mat (nrows E) (ncols E) (\<lambda>i j. entry E i j + entry B i j)))"

definition broadcast_vec :: "nat \<Rightarrow> real list \<Rightarrow> py_error + real list" where
  "broadcast_vec n v =
     (if length v = n then Inr v
      else if length v = 1 then Inr (replicate n (v ! 0))
      else Inl (ValueError ''could not broadcast input array''))"

text \<open>\<open>E[i, :] = v\<close>: the row index is checked first, then the value is broadcast.\<close>

definition assign_row :: "mat \<Rightarrow> int \<Rightarrow> real list \<Rightarrow> py_error + mat" where
  "assign_row E i v =
     bind_err (norm_index (nrows E) i) (\<lambda>k.
     bind_err (broadcast_vec (ncols E) v) (\<lambda>w.
       Inr (E\<lparr>rows := (rows E)[k := w]\<rparr>)))"

text \<open>A slice \<open>xs[:k]\<close>; a negative \<open>k\<close> counts from the end.\<close>

definition py_take :: "int \<Rightarrow> 'a list \<Rightarrow> 'a list" where
  "py_take k xs = (if 0 \<le> k then take (nat k) xs else take (length xs - nat (- k)) xs)"

definition cols_upto :: "int \<Rightarrow> mat \<Rightarrow> mat" where
  "cols_upto k M = \<lparr>ncols = length (py_take k [0 ..< ncols M]), rows = map (py_take k) (rows M)\<rparr>"

text \<open>\<open>np.diag\<close> of a vector and of a matrix; \<open>np.sum(M, axis=1, keepdims=True)\<close>.\<close>

definition diag_mat :: "real list \<Rightarrow> mat" where
  "diag_mat v = mk_mat (length v) (length v) (\<lambda>i j. if i = j then v ! i else 0)"

definition diag_of :: "mat \<Rightarrow> real list" where
  "diag_of M = map (\<lambda>i. entry M i i) [0 ..< min (nrows M) (ncols M)]"

definition row_sums :: "mat \<Rightarrow> mat" where
  "row_sums M = mk_mat (nrows M) 1 (\<lambda>i j. \<Sum>k\<leftarrow>[0 ..< ncols M]. entry M i k)"

text \<open>\<open>X[msk, :].sum(axis=0)\<close>: the column sums of the rows a boolean mask selects.\<close>

definition masked_column_sums :: "mat \<Rightarrow> bool list \<Rightarrow> py_error + real list" where
  "masked_column_sums M msk =
     (if length msk \<noteq> nrows M then Inl IndexError
      else Inr (map (\<lambda>j. \<Sum>r\<leftarrow>map fst (filter snd (zip (rows M) msk)). r ! j) [0 ..< ncols M]))"

text \<open>A loop whose body may raise: the state is threaded until the first exception.\<close>

fun fold_err :: "('a \<Rightarrow> 's \<Rightarrow> py_error + 's) \<Rightarrow> 'a list \<Rightarrow> 's \<Rightarrow> py_error + 's" where
  "fold_err f [] s = Inr s"
| "fold_err f (x # xs) s = bind_err (f x s) (fold_err f xs)"

fun map_err :: "('a \<Rightarrow> py_error + 'b) \<Rightarrow> 'a list \<Rightarrow> py_error + 'b list" where
  "map_err f [] = Inr []"
| "map_err f (x # xs) = bind_err (f x) (\<lambda>y. bind_err (map_err f xs) (\<lambda>ys. Inr (y # ys)))"

section \<open>Average detection cost (\<open>Cavg\<close>, numpy path)\<close>

text \<open>
  A float that may be infinite or \<open>nan\<close>: \<open>np.log\<close> gives \<open>-inf\<close> at 0 and \<open>nan\<close> below 0
  (with a warning, no exception), and comparisons with \<open>nan\<close> are false.
\<close>

datatype xreal = Finite real | PosInf | NegInf | NaN

definition np_log :: "real \<Rightarrow> xreal" where
  "np_log x = (if 0 < x then Finite (ln x) else if x = 0 then NegInf else NaN)"

fun xsub :: "xreal \<Rightarrow> xreal \<Rightarrow> xreal" where
  "xsub (Finite a) (Finite b) = Finite (a - b)"
| "xsub NaN _ = NaN"
| "xsub _ NaN = NaN"
| "xsub PosInf PosInf = NaN"
| "xsub NegInf NegInf = NaN"
| "xsub PosInf _ = PosInf"
| "xsub NegInf _ = NegInf"
| "xsub (Finite a) PosInf = NegInf"
| "xsub (Finite a) NegInf = PosInf"

fun lt_thresh :: "real \<Rightarrow> xreal \<Rightarrow> bool" where
  "lt_thresh x (Finite t) = (x < t)"
| "lt_thresh x PosInf = True"
| "lt_thresh x NegInf = False"
| "lt_thresh x NaN = False"

fun ge_thresh :: "real \<Rightarrow> xreal \<Rightarrow> bool" where
  "ge_thresh x (Finite t) = (x \<ge> t)"
| "ge_thresh x PosInf = False"
| "ge_thresh x NegInf = True"
| "ge_thresh x NaN = False"

text \<open>
  \<open>thresh = np.log(Cfa / Cmiss) - np.log(Ptar / (1 - Ptar))\<close>. The three parameters are
  Python floats (as their defaults are), so each quotient raises \<open>ZeroDivisionError\<close> on a
  zero divisor before \<open>np.log\<close> sees it.
\<close>

definition cavg_thresh :: "real \<Rightarrow> real \<Rightarrow> real \<Rightarrow> py_error + xreal" where
  "cavg_thresh Ptar Cfa Cmiss =
     (if Cmiss = 0 then Inl ZeroDivisionError
      else if 1 - Ptar = 0 then Inl ZeroDivisionError
      else Inr (xsub (np_log (Cfa / Cmiss)) (np_log (Ptar / (1 - Ptar)))))"

text \<open>
  With \<open>probability_input\<close>, every entry is clipped to [10e-8, 1 - 10e-8] and turned into
  its log odds; after clipping the logarithm's argument is positive.
\<close>

definition to_log_odds :: "real \<Rightarrow> real" where
  "to_log_odds x = (let c = min (max x (1 / 10 ^ 7)) (1 - 1 / 10 ^ 7) in ln (c / (1 - c)))"

definition cavg_input :: "bool \<Rightarrow> mat \<Rightarrow> mat" where
  "cavg_input probability_input y_llr =
     (if probability_input then y_llr\<lparr>rows := map (map to_log_odds) (rows y_llr)\<rparr> else y_llr)"

text \<open>The default of \<open>cluster_idx\<close> is one cluster of all the columns.\<close>

definition cavg_clusters :: "mat \<Rightarrow> int list list option \<Rightarrow> int list list" where
  "cavg_clusters y_llr cluster_idx =
     (case cluster_idx of None \<Rightarrow> [map int [0 ..< ncols y_llr]] | Some cs \<Rightarrow> cs)"

text \<open>
  The body of \<open>for lang_j in cluster\<close>; \<open>msk\<close> is \<open>y_true == lang_i\<close> and \<open>N\<close> the floored
  sample count. The state is the pair of the running sums \<open>fr\<close> and \<open>fa\<close>.
\<close>

definition cavg_lang_j ::
  "mat \<Rightarrow> bool list \<Rightarrow> real \<Rightarrow> xreal \<Rightarrow> int \<Rightarrow> int \<Rightarrow> real \<times> real \<Rightarrow> py_error + real \<times> real" where
  "cavg_lang_j y_llr msk N thresh lang_i lang_j = (\<lambda>(fr, fa).
     if lang_i = lang_j then
       bind_err (masked_column y_llr msk lang_i) (\<lambda>col.
         Inr (fr + real (length (filter (\<lambda>x. lt_thresh x thresh) col)) / N, fa))
     else
       bind_err (masked_column y_llr msk lang_j) (\<lambda>col.
         Inr (fr, fa + real (length (filter (\<lambda>x. ge_thresh x thresh) col)) / N)))"

text \<open>The body of \<open>for lang_i in cluster\<close>: \<open>N = max(np.sum(y_true == lang_i), 1.)\<close>.\<close>

definition cavg_lang_i ::
  "mat \<Rightarrow> int list \<Rightarrow> xreal \<Rightarrow> int list \<Rightarrow> int \<Rightarrow> real \<times> real \<Rightarrow> py_error + real \<times> real" where
  "cavg_lang_i y_llr y_true thresh cluster lang_i =
     (let msk = map (\<lambda>t. t = lang_i) y_true;
          N = max (real (length (filter (\<lambda>b. b) msk))) 1
      in fold_err (cavg_lang_j y_llr msk N thresh lang_i) cluster)"

text \<open>
  The body of \<open>for k, cluster in enumerate(cluster_idx)\<close>. In the last line the divisor
  \<open>L - 1\<close> is a Python integer. When \<open>L\<close> is 1 the \<open>else\<close> branch above never ran, \<open>fa\<close> is
  still the Python integer 0 and \<open>Cfa * (1 - Ptar) * fa\<close> a Python number, so the division
  raises \<open>ZeroDivisionError\<close>. When \<open>L\<close> is 0 both sums are Python numbers and the
  division by \<open>L\<close> raises it.
\<close>

definition cavg_cluster_cost ::
  "mat \<Rightarrow> int list \<Rightarrow> xreal \<Rightarrow> real \<Rightarrow> real \<Rightarrow> real \<Rightarrow> int list \<Rightarrow> py_error + real" where
  "cavg_cluster_cost y_llr y_true thresh Ptar Cfa Cmiss cluster =
     (let L = int (length cluster) in
      bind_err (fold_err (cavg_lang_i y_llr y_true thresh cluster) cluster (0, 0)) (\<lambda>(fr, fa).
        if L - 1 = 0 then Inl ZeroDivisionError
        else if L = 0 then Inl ZeroDivisionError
        else Inr (100 * (Cmiss * Ptar * fr + Cfa * (1 - Ptar) * fa / real_of_int (L - 1))
                    / real_of_int L)))"

text \<open>\<open>np.mean\<close> of an array that may be empty: \<open>nan\<close> then, with a warning.\<close>

definition np_mean_x :: "real list \<Rightarrow> xreal" where
  "np_mean_x xs = (if xs = [] then NaN else Finite (np_mean xs))"

definition Cavg ::
  "mat \<Rightarrow> int list \<Rightarrow> int list list option \<Rightarrow> real \<Rightarrow> real \<Rightarrow> real \<Rightarrow> bool
   \<Rightarrow> py_error + (real list \<times> xreal)" where
  "Cavg y_llr y_true cluster_idx Ptar Cfa Cmiss probability_input =
     (let y_llr = cavg_input probability_input y_llr;
          cluster_idx = cavg_clusters y_llr cluster_idx
      in bind_err (cavg_thresh Ptar Cfa Cmiss) (\<lambda>thresh.
         bind_err (map_err (cavg_cluster_cost y_llr y_true thresh Ptar Cfa Cmiss) cluster_idx)
           (\<lambda>cluster_cost. Inr (cluster_cost, np_mean_x cluster_cost))))"

text \<open>
  The same cost written from the formula alone, for comparison: \<open>spec_miss\<close> and
  \<open>spec_fa\<close> count matrix entries by sample index, the class \<open>i\<close> being column \<open>i\<close>.
\<close>

definition spec_class_size :: "int list \<Rightarrow> int \<Rightarrow> real" where
  "spec_class_size y_true i = max (real (count_list y_true i)) 1"

definition spec_miss :: "mat \<Rightarrow> int list \<Rightarrow> real \<Rightarrow> int \<Rightarrow> real" where
  "spec_miss y_llr y_true t i =
     real (length [k \<leftarrow> [0 ..< length y_true]. y_true ! k = i \<and> rows y_llr ! k ! nat i < t])
       / spec_class_size y_true i"

definition spec_fa :: "mat \<Rightarrow> int list \<Rightarrow> real \<Rightarrow> int \<Rightarrow> int \<Rightarrow> real" where
  "spec_fa y_llr y_true t i j =
     real (length [k \<leftarrow> [0 ..< length y_true]. y_true ! k = i \<and> rows y_llr ! k ! nat j \<ge> t])
       / spec_class_size y_true i"

definition spec_thresh :: "real \<Rightarrow> real \<Rightarrow> real \<Rightarrow> real" where
  "spec_thresh Ptar Cfa Cmiss = ln (Cfa / Cmiss) - ln (Ptar / (1 - Ptar))"

definition spec_cluster_cost ::
  "mat \<Rightarrow> int list \<Rightarrow> real \<Rightarrow> real \<Rightarrow> real \<Rightarrow> int list \<Rightarrow> real" where
  "spec_cluster_cost y_llr y_true Ptar Cfa Cmiss cluster =
     (let t = spec_thresh Ptar Cfa Cmiss; L = real (length cluster) in
      100 * (Cmiss * Ptar * (\<Sum>i\<leftarrow>cluster. spec_miss y_llr y_true t i)
             + Cfa * (1 - Ptar)
                 * (\<Sum>i\<leftarrow>cluster. \<Sum>j\<leftarrow>filter (\<lambda>j. j \<noteq> i) cluster. spec_fa y_llr y_true t i j)
                 / (L - 1))
        / L)"

section \<open>Probabilistic LDA (\<open>odin/ml/plda.py\<close>)\<close>

subsection \<open>What the class takes from outside\<close>

text \<open>
  \<open>VectorNormalizer\<close>, \<open>compute_class_avg\<close> and \<open>odin.utils.unique\<close> are code of other
  modules that are not part of the sources at hand, and \<open>solve\<close>, \<open>inv\<close>, \<open>svd\<close>,
  \<open>cholesky\<close> and \<open>RandomState.randn\<close> are scipy and numpy routines. They are parameters
  of the model: \<open>'n\<close> is the state of a normalizer, \<open>'r\<close> the state of a random generator.
  Floats are exact reals, so \<open>astype(self.dtype)\<close> changes nothing.
\<close>

record ('n, 'r) library =
  k_randn :: "'r \<Rightarrow> nat \<Rightarrow> nat \<Rightarrow> mat \<times> 'r"
  k_norm_fit :: "'n \<Rightarrow> mat \<Rightarrow> int list \<Rightarrow> py_error + 'n"
  k_norm_transform :: "'n \<Rightarrow> mat \<Rightarrow> py_error + mat"
  k_solve :: "mat \<Rightarrow> mat \<Rightarrow> py_error + mat"
  k_inv :: "mat \<Rightarrow> py_error + mat"
  k_svd :: "mat \<Rightarrow> py_error + (mat \<times> real list \<times> mat)"
  k_cholesky :: "mat \<Rightarrow> py_error + mat"
  k_class_avg :: "mat \<Rightarrow> int list \<Rightarrow> int list \<Rightarrow> py_error + mat"
  k_unique :: "nat list \<Rightarrow> nat list"

subsection \<open>The object\<close>

text \<open>
  An attribute that \<open>hasattr\<close> asks for is \<open>Missing\<close> until it is assigned. The fields are
  the attributes of a \<open>PLDA\<close> object: \<open>feat_dim\<close>, \<open>labels\<close>, \<open>normalizer\<close>, \<open>dtype\<close> and
  \<open>rand_state\<close> are \<open>_feat_dim\<close>, \<open>_labels\<close>, \<open>_normalizer\<close>, \<open>_dtype\<close> and \<open>_rand_state\<close>,
  \<open>verbose\<close> is \<open>verbose_\<close>, and the matrix \<open>Sigma_\<close> is \<open>Sigma_m\<close>, and so on for the other
  matrices. Labels are class identifiers, of which only the number is used.
  \<open>num_classes_attr\<close> is \<open>self._num_classes\<close>, which \<open>initialize\<close> reads and no method of
  the class assigns.
\<close>

datatype 'a attr = Missing | Attr 'a

record ('n, 'r) plda =
  num_phi :: int
  num_iter :: int
  feat_dim :: "nat option"
  labels :: "int list option"
  verbose :: int
  normalizer :: 'n
  dtype :: string
  rand_state :: 'r
  Sigma_m :: "mat option"
  Phi_m :: "mat option"
  Sb_m :: "mat option"
  St_m :: "mat option"
  Lambda_m :: "mat attr"
  Uk_m :: "mat attr"
  Q_hat_m :: "mat attr"
  X_model_m :: "mat attr"
  num_classes_attr :: "nat option attr"

text \<open>
  \<open>__init__\<close>. The normalizer and the random generator are built by code outside the
  sources at hand and are passed in, as is what the base classes' \<open>__init__\<close> leaves in
  \<open>_num_classes\<close>.
\<close>

definition PLDA_init ::
  "int \<Rightarrow> int \<Rightarrow> 'n \<Rightarrow> int list option \<Rightarrow> string \<Rightarrow> 'r \<Rightarrow> int \<Rightarrow> nat option attr
   \<Rightarrow> ('n, 'r) plda" where
  "PLDA_init n_phi n_iter nrm labs dt rnd verb base_num_classes =
     \<lparr>num_phi = n_phi, num_iter = n_iter, feat_dim = None, labels = labs, verbose = verb,
      normalizer = nrm, dtype = dt, rand_state = rnd,
      Sigma_m = None, Phi_m = None, Sb_m = None, St_m = None,
      Lambda_m = Missing, Uk_m = Missing, Q_hat_m = Missing, X_model_m = Missing,
      num_classes_attr = base_num_classes\<rparr>"

text \<open>The property \<open>num_classes\<close> is \<open>len(self._labels)\<close>, and \<open>len(None)\<close> raises.\<close>

definition num_classes :: "('n, 'r) plda \<Rightarrow> py_error + nat" where
  "num_classes s = (case labels s of None \<Rightarrow> Inl TypeError | Some ls \<Rightarrow> Inr (length ls))"

definition is_fitted :: "('n, 'r) plda \<Rightarrow> bool" where
  "is_fitted s =
     (if Lambda_m s = Missing \<or> Uk_m s = Missing \<or> Q_hat_m s = Missing \<or> X_model_m s = Missing
      then False else True)"

text \<open>
  Reading an attribute that may be missing, and using a value that may be \<open>None\<close> where
  numpy wants an array (taken to raise \<open>TypeError\<close>).
\<close>

definition get_attr :: "'a attr \<Rightarrow> py_error + 'a" where
  "get_attr a = (case a of Missing \<Rightarrow> Inl AttributeError | Attr v \<Rightarrow> Inr v)"

definition need_mat :: "mat option \<Rightarrow> py_error + mat" where
  "need_mat m = (case m of None \<Rightarrow> Inl TypeError | Some M \<Rightarrow> Inr M)"

subsection \<open>Methods that change the object\<close>

text \<open>
  A method that assigns attributes returns its outcome and the object as it then is: what
  was assigned before an exception stays assigned.
\<close>

definition eval_in :: "py_error + 'a \<Rightarrow> 's \<Rightarrow> ('a \<Rightarrow> (py_error + 'b) \<times> 's) \<Rightarrow> (py_error + 'b) \<times> 's" where
  "eval_in m s k = (case m of Inl e \<Rightarrow> (Inl e, s) | Inr x \<Rightarrow> k x)"

definition and_then ::
  "(py_error + 'a) \<times> 's \<Rightarrow> ('a \<Rightarrow> 's \<Rightarrow> (py_error + 'b) \<times> 's) \<Rightarrow> (py_error + 'b) \<times> 's" where
  "and_then r k = (case r of (Inl e, s) \<Rightarrow> (Inl e, s) | (Inr x, s) \<Rightarrow> k x s)"

subsection \<open>Pickling\<close>

text \<open>The state is the tuple of sixteen values that \<open>__getstate__\<close> builds.\<close>

type_synonym ('n, 'r) plda_states =
  "int \<times> int \<times> nat option \<times> int list option \<times> int \<times> 'n \<times> string \<times> 'r
   \<times> mat option \<times> mat option \<times> mat option \<times> mat option \<times> mat \<times> mat \<times> mat \<times> mat"

definition getstate :: "('n, 'r) plda \<Rightarrow> py_error + ('n, 'r) plda_states" where
  "getstate s =
     (if \<not> is_fitted s then Inl (RuntimeError ''The PLDA have not been fitted, nothing to pickle!'')
      else
        bind_err (get_attr (Lambda_m s)) (\<lambda>La.
        bind_err (get_attr (Uk_m s)) (\<lambda>U.
        bind_err (get_attr (Q_hat_m s)) (\<lambda>Q.
        bind_err (get_attr (X_model_m s)) (\<lambda>Xm.
          Inr (num_phi s, num_iter s, feat_dim s, labels s, verbose s,
               normalizer s, dtype s, rand_state s,
               Sigma_m s, Phi_m s, Sb_m s, St_m s, La, U, Q, Xm))))))"

text \<open>
  \<open>__setstate__\<close> unpacks the tuple into the sixteen attributes; it reads nothing of the
  object and compares nothing. (A tuple of another length cannot be unpacked; the type
  fixes the length here.)
\<close>

definition setstate ::
  "('n, 'r) plda \<Rightarrow> ('n, 'r) plda_states \<Rightarrow> (py_error + unit) \<times> ('n, 'r) plda" where
  "setstate s = (\<lambda>(n_phi, n_iter, fd, labs, verb, nrm, dt, rnd, Sg, Ph, SB, ST, La, U, Q, Xm).
     (Inr (),
      s\<lparr>num_phi := n_phi, num_iter := n_iter, feat_dim := fd, labels := labs, verbose := verb,
        normalizer := nrm, dtype := dt, rand_state := rnd,
        Sigma_m := Sg, Phi_m := Ph, Sb_m := SB, St_m := ST,
        Lambda_m := Attr La, Uk_m := Attr U, Q_hat_m := Attr Q, X_model_m := Attr Xm\<rparr>))"

text \<open>
  What the specification calls a consistent state, for comparison: \<open>Phi\<close> has
  \<open>feat_dim\<close> rows and \<open>num_phi\<close> columns.
\<close>

definition spec_states_consistent :: "('n, 'r) plda_states \<Rightarrow> bool" where
  "spec_states_consistent = (\<lambda>(n_phi, n_iter, fd, labs, verb, nrm, dt, rnd, Sg, Ph, rest).
     case (fd, Ph) of
       (Some d, Some P) \<Rightarrow> nrows P = d \<and> int (ncols P) = n_phi
     | _ \<Rightarrow> False)"

subsection \<open>\<open>initialize\<close>\<close>

text \<open>
  The block under \<open>if self.feat_dim is None or self._num_classes is None\<close>. \<open>_feat_dim\<close>
  and \<open>_labels\<close> are assigned before \<open>feat_dim <= num_phi\<close> is tested. \<open>1. / self.feat_dim\<close>
  divides a Python float by a Python integer; \<open>randn\<close> refuses a negative size.
\<close>

definition initialize_fresh ::
  "('n, 'r) library \<Rightarrow> ('n, 'r) plda \<Rightarrow> nat \<Rightarrow> int list \<Rightarrow> (py_error + unit) \<times> ('n, 'r) plda" where
  "initialize_fresh K s0 fd labs =
     (let s1 = s0\<lparr>feat_dim := Some fd\<rparr>;
          s2 = (if labels s1 = None then s1\<lparr>labels := Some labs\<rparr> else s1)
      in if int fd \<le> num_phi s2
         then (Inl (RuntimeError ''feat_dim must be greater than num_phi''), s2)
         else if fd = 0 then (Inl ZeroDivisionError, s2)
         else
           (let (R1, rnd1) = k_randn K (rand_state s2) fd fd;
                s3 = s2\<lparr>rand_state := rnd1\<rparr>
            in eval_in (np_elementwise (+) (smult (1 / real fd) (eye fd)) R1) s3 (\<lambda>Sg.
               let s4 = s3\<lparr>Sigma_m := Some Sg\<rparr>
               in if num_phi s4 < 0
                  then (Inl (ValueError ''negative dimensions are not allowed''), s4)
                  else
                    (let (R2, rnd2) = k_randn K (rand_state s4) (nat (num_phi s4)) fd;
                         s5 = s4\<lparr>rand_state := rnd2\<rparr>
                     in eval_in (k_norm_transform K (normalizer s5) R2) s5 (\<lambda>T.
                          (Inr (), s5\<lparr>Phi_m := Some (transpose_mat T),
                                      Sb_m := Some (zeros fd fd),
                                      St_m := Some (zeros fd fd)\<rparr>))))))"

text \<open>The two checks under \<open># ====== validate the dimension\<close>.\<close>

definition initialize_validate ::
  "('n, 'r) plda \<Rightarrow> nat \<Rightarrow> int list \<Rightarrow> (py_error + unit) \<times> ('n, 'r) plda" where
  "initialize_validate s fd labs =
     (if feat_dim s \<noteq> Some fd
      then (Inl (ValueError ''Mismatch the input feature dimension''), s)
      else eval_in (num_classes s) s (\<lambda>n.
             if n \<noteq> length labs
             then (Inl (ValueError ''Mismatch the number of output classes''), s)
             else (Inr (), s)))"

text \<open>
  \<open>initialize\<close>. In \<open>self.feat_dim is None or self._num_classes is None\<close> the second
  operand is evaluated only when the first is false.
\<close>

definition initialize ::
  "('n, 'r) library \<Rightarrow> ('n, 'r) plda \<Rightarrow> mat \<Rightarrow> int list \<Rightarrow> (py_error + unit) \<times> ('n, 'r) plda" where
  "initialize K s X labs =
     (let fd = ncols X in
      and_then
        (case feat_dim s of
           None \<Rightarrow> initialize_fresh K s fd labs
         | Some _ \<Rightarrow>
             (case num_classes_attr s of
                Missing \<Rightarrow> (Inl AttributeError, s)
              | Attr None \<Rightarrow> initialize_fresh K s fd labs
              | Attr (Some _) \<Rightarrow> (Inr (), s)))
        (\<lambda>_ s'. initialize_validate s' fd labs))"

subsection \<open>\<open>_update_caches\<close>\<close>

text \<open>
  \<open>Lambda_\<close> and \<open>Uk_\<close> are assigned before the product for \<open>Q_hat_\<close> is computed.
\<close>

definition update_caches ::
  "('n, 'r) library \<Rightarrow> ('n, 'r) plda \<Rightarrow> (py_error + unit) \<times> ('n, 'r) plda" where
  "update_caches K s =
     eval_in (need_mat (St_m s)) s (\<lambda>ST.
     eval_in (k_inv K ST) s (\<lambda>iSt.
     eval_in (need_mat (Sb_m s)) s (\<lambda>SB.
     eval_in (bind_err (np_dot SB iSt) (\<lambda>A. bind_err (np_dot A SB) (\<lambda>B.
              bind_err (np_elementwise (-) ST B) (k_inv K)))) s (\<lambda>iS.
     eval_in (np_elementwise (-) iSt iS) s (\<lambda>Q.
     eval_in (bind_err (np_dot iSt SB) (\<lambda>A. np_dot A iS)) s (\<lambda>P.
     eval_in (k_svd K P) s (\<lambda>(U, sv, V).
     let s1 = s\<lparr>Lambda_m := Attr (diag_mat (py_take (num_phi s) sv))\<rparr>;
         Uk = cols_upto (num_phi s1) U;
         s2 = s1\<lparr>Uk_m := Attr Uk\<rparr>
     in eval_in (bind_err (np_dot (transpose_mat Uk) Q) (\<lambda>A. np_dot A Uk)) s2 (\<lambda>Qh.
          (Inr (), s2\<lparr>Q_hat_m := Attr Qh\<rparr>)))))))))"

subsection \<open>The expectation step\<close>

text \<open>\<open>np.zeros\<close> of a negative size raises; \<open>a[k]\<close> of a Python list or an array.\<close>

definition np_zeros :: "int \<Rightarrow> int \<Rightarrow> py_error + mat" where
  "np_zeros r c =
     (if r < 0 \<or> c < 0 then Inl (ValueError ''negative dimensions are not allowed'')
      else Inr (zeros (nat r) (nat c)))"

definition get_item :: "'a list \<Rightarrow> nat \<Rightarrow> py_error + 'a" where
  "get_item xs k = (if k < length xs then Inr (xs ! k) else Inl IndexError)"

text \<open>\<open>np.flatnonzero(uniqFreqs == num_samples)[0]\<close>: the first position of the value.\<close>

fun first_index :: "nat list \<Rightarrow> nat \<Rightarrow> py_error + nat" where
  "first_index [] v = Inl IndexError"
| "first_index (x # xs) v =
     (if x = v then Inr 0 else bind_err (first_index xs v) (\<lambda>k. Inr (Suc k)))"

text \<open>
  The body of \<open>for clz in range(num_classes)\<close>; the state is the pair of \<open>Ey_clz\<close> and
  \<open>Eyy\<close>.
\<close>

definition expectation_class ::
  "mat \<Rightarrow> nat list \<Rightarrow> nat list \<Rightarrow> mat list \<Rightarrow> mat \<Rightarrow> nat \<Rightarrow> mat \<times> mat \<Rightarrow> py_error + mat \<times> mat" where
  "expectation_class F cls_counts uniqFreqs invTerms PhiT_invS clz = (\<lambda>(Ey_clz, Eyy).
     bind_err (get_item cls_counts clz) (\<lambda>num_samples.
     bind_err (get_item (rows F) clz) (\<lambda>F_clz.
     bind_err (np_dot_vec PhiT_invS F_clz) (\<lambda>PhiT_invS_y.
     bind_err (first_index uniqFreqs num_samples) (\<lambda>idx.
     bind_err (get_item invTerms idx) (\<lambda>Cyy.
     bind_err (np_dot_vec Cyy PhiT_invS_y) (\<lambda>v.
     bind_err (assign_row Ey_clz (int clz) v) (\<lambda>Ey_clz'.
     bind_err (np_iadd Eyy (smult (real num_samples) Cyy)) (\<lambda>Eyy'.
       Inr (Ey_clz', Eyy'))))))))))"

text \<open>
  \<open>expectation_plda\<close> reads \<open>Sigma_\<close> and \<open>Phi_\<close> and assigns nothing. \<open>cls_counts\<close> is the
  result of \<open>np.bincount\<close>. \<open>cls_counts[:, None]\<close> is the counts as one column.
\<close>

definition expectation_plda ::
  "('n, 'r) library \<Rightarrow> ('n, 'r) plda \<Rightarrow> mat \<Rightarrow> nat list \<Rightarrow> py_error + mat \<times> mat" where
  "expectation_plda K s F cls_counts =
     (let n_classes = nrows F in
      bind_err (np_zeros (num_phi s) (num_phi s)) (\<lambda>Eyy0.
      bind_err (np_zeros (int n_classes) (num_phi s)) (\<lambda>Ey0.
      let uniqFreqs = k_unique K cls_counts;
          n_uniq = length uniqFreqs;
          n_phi = nat (num_phi s)
      in
      bind_err (case Sigma_m s of None \<Rightarrow> Inl AttributeError | Some Sg \<Rightarrow> Inr Sg) (\<lambda>Sg.
      bind_err (need_mat (Phi_m s)) (\<lambda>Ph.
      bind_err (k_solve K (transpose_mat Sg) Ph) (\<lambda>Z.
      let PhiT_invS = transpose_mat Z in
      bind_err (np_dot PhiT_invS Ph) (\<lambda>PhiT_invS_Phi.
      bind_err (map_err (\<lambda>ix.
                  bind_err (np_elementwise (+) (eye n_phi)
                              (smult (real (uniqFreqs ! ix)) PhiT_invS_Phi)) (\<lambda>A.
                  bind_err (k_inv K A) (broadcast_to n_phi n_phi)))
                [0 ..< n_uniq]) (\<lambda>invTerms.
      bind_err (fold_err (expectation_class F cls_counts uniqFreqs invTerms PhiT_invS)
                  [0 ..< n_classes] (Ey0, Eyy0)) (\<lambda>(Ey_clz, Eyy).
      bind_err (np_elementwise times Ey_clz
                  \<lparr>ncols = 1, rows = map (\<lambda>c. [real c]) cls_counts\<rparr>) (\<lambda>W.
      bind_err (np_dot (transpose_mat W) Ey_clz) (\<lambda>C.
      bind_err (np_iadd Eyy C) (\<lambda>Eyy'.
        Inr (Ey_clz, Eyy')))))))))))))"

subsection \<open>The log-likelihood\<close>

text \<open>
  \<open>logdet\<close> and \<open>compute_llk\<close>. \<open>None\<close> is a result that is not a finite number: the
  logarithm of a diagonal entry that is not positive. The value is only printed.
\<close>

definition logdet :: "('n, 'r) library \<Rightarrow> mat \<Rightarrow> py_error + real option" where
  "logdet K A =
     bind_err (k_cholesky K A) (\<lambda>u.
       if \<forall>d\<in>set (diag_of u). 0 < d
       then Inr (Some (2 * (\<Sum>d\<leftarrow>diag_of u. ln d)))
       else Inr None)"

definition compute_llk :: "('n, 'r) library \<Rightarrow> ('n, 'r) plda \<Rightarrow> mat \<Rightarrow> py_error + real option" where
  "compute_llk K s X =
     (let num_samples = nrows X in
      bind_err (case Phi_m s of None \<Rightarrow> Inl AttributeError | Some Ph \<Rightarrow> Inr Ph) (\<lambda>Ph.
      bind_err (np_dot Ph (transpose_mat Ph)) (\<lambda>PP.
      bind_err (need_mat (Sigma_m s)) (\<lambda>Sg.
      bind_err (np_elementwise (+) PP Sg) (\<lambda>S.
      bind_err (case feat_dim s of None \<Rightarrow> Inl TypeError | Some fd \<Rightarrow> Inr fd) (\<lambda>fd.
      bind_err (logdet K S) (\<lambda>ld.
      bind_err (k_solve K S (transpose_mat X)) (\<lambda>Z.
      bind_err (np_elementwise times X (transpose_mat Z)) (\<lambda>XZ.
        Inr (case ld of
               None \<Rightarrow> None
             | Some l \<Rightarrow>
                 Some (- (1 / 2) * (real fd * real num_samples * ln (2 * pi)
                                    + real num_samples * l
                                    + (\<Sum>r\<leftarrow>rows XZ. sum_list r)))))))))))))"

subsection \<open>The maximization step\<close>

text \<open>
  \<open>maximization_plda\<close>. \<open>Phi_\<close> is assigned before the new \<open>Sigma_\<close> is computed from it.
  \<open>1. / num_samples\<close> divides a Python float by a Python integer.
\<close>

definition maximization_plda ::
  "('n, 'r) library \<Rightarrow> ('n, 'r) plda \<Rightarrow> mat \<Rightarrow> mat \<Rightarrow> mat \<Rightarrow> mat \<Rightarrow> mat
   \<Rightarrow> (py_error + unit) \<times> ('n, 'r) plda" where
  "maximization_plda K s X X_sqr F Ey Eyy =
     (let num_samples = nrows X in
      eval_in (np_dot (transpose_mat Ey) F) s (\<lambda>Ey_FT.
      eval_in (k_solve K (transpose_mat Eyy) Ey_FT) s (\<lambda>Z.
      let s1 = s\<lparr>Phi_m := Some (transpose_mat Z)\<rparr> in
      if num_samples = 0 then (Inl ZeroDivisionError, s1)
      else
        eval_in (bind_err (np_dot (transpose_mat Z) Ey_FT) (np_elementwise (-) X_sqr)) s1 (\<lambda>D.
          (Inr (), s1\<lparr>Sigma_m := Some (smult (1 / real num_samples) D)\<rparr>)))))"

subsection \<open>\<open>fit\<close>\<close>

text \<open>
  \<open>np.bincount\<close> refuses a negative value and counts every value from 0 to the largest;
  \<open>np.unique\<close> gives the distinct values in increasing order.
\<close>

definition np_bincount :: "int list \<Rightarrow> py_error + nat list" where
  "np_bincount y =
     (if \<exists>v\<in>set y. v < 0 then Inl (ValueError ''bincount: negative elements'')
      else if y = [] then Inr []
      else Inr (map (\<lambda>v. count_list y (int v)) [0 ..< nat (Max (set y)) + 1]))"

definition np_unique :: "int list \<Rightarrow> int list" where
  "np_unique y = remdups (sort y)"

text \<open>
  The body of \<open>for clz in np.unique(y)\<close>: \<open>F[clz, :] = X[y == clz, :].sum(axis=0)\<close>. The
  right-hand side is computed first.
\<close>

definition accumulate_class :: "mat \<Rightarrow> int list \<Rightarrow> int \<Rightarrow> mat \<Rightarrow> py_error + mat" where
  "accumulate_class X y clz F =
     bind_err (masked_column_sums X (map (\<lambda>t. t = clz) y)) (\<lambda>v. assign_row F clz v)"

text \<open>
  One round of \<open>for iter in range(self.num_iter)\<close>: the expectation with the object as
  it is, then the maximization, then the log-likelihood when \<open>verbose_ > 1\<close>. Printing is
  left out.
\<close>

definition em_iteration ::
  "('n, 'r) library \<Rightarrow> mat \<Rightarrow> mat \<Rightarrow> mat \<Rightarrow> nat list \<Rightarrow> ('n, 'r) plda
   \<Rightarrow> (py_error + unit) \<times> ('n, 'r) plda" where
  "em_iteration K X X_sqr F y_counts s =
     eval_in (expectation_plda K s F y_counts) s (\<lambda>(Ey, Eyy).
     and_then (maximization_plda K s X X_sqr F Ey Eyy) (\<lambda>_ s1.
       if verbose s1 > 1
       then eval_in (compute_llk K s1 X) s1 (\<lambda>_. (Inr (), s1))
       else (Inr (), s1)))"

fun em_loop ::
  "nat \<Rightarrow> ('n, 'r) library \<Rightarrow> mat \<Rightarrow> mat \<Rightarrow> mat \<Rightarrow> nat list \<Rightarrow> ('n, 'r) plda
   \<Rightarrow> (py_error + unit) \<times> ('n, 'r) plda" where
  "em_loop 0 K X X_sqr F y_counts s = (Inr (), s)"
| "em_loop (Suc n) K X X_sqr F y_counts s =
     and_then (em_iteration K X X_sqr F y_counts s) (\<lambda>_ s1. em_loop n K X X_sqr F y_counts s1)"

text \<open>
  \<open>fit\<close> up to and with \<open>self.initialize(X, labels=classes)\<close>: the result is the counts,
  the classes and the normalized \<open>X\<close>.
\<close>

definition fit_prepare ::
  "('n, 'r) library \<Rightarrow> ('n, 'r) plda \<Rightarrow> mat \<Rightarrow> int list
   \<Rightarrow> (py_error + nat list \<times> int list \<times> mat) \<times> ('n, 'r) plda" where
  "fit_prepare K s X y =
     (if nrows X \<noteq> length y then (Inl AssertionError, s)
      else
        eval_in (np_bincount y) s (\<lambda>y_counts.
        let classes = np_unique y in
        eval_in (k_norm_fit K (normalizer s) X y) s (\<lambda>nrm.
        let s1 = s\<lparr>normalizer := nrm\<rparr> in
        eval_in (k_norm_transform K nrm X) s1 (\<lambda>Xn.
        and_then (initialize K s1 Xn classes) (\<lambda>_ s2.
          (Inr (y_counts, classes, Xn), s2))))))"

text \<open>\<open>fit\<close> from \<open>F = np.zeros(...)\<close> to the loop that fills \<open>F\<close>.\<close>

definition fit_class_sums ::
  "('n, 'r) plda \<Rightarrow> mat \<Rightarrow> int list \<Rightarrow> py_error + mat" where
  "fit_class_sums s X y =
     bind_err (num_classes s) (\<lambda>n_classes.
     bind_err (case feat_dim s of None \<Rightarrow> Inl TypeError | Some fd \<Rightarrow> Inr fd) (\<lambda>fd.
       fold_err (accumulate_class X y) (np_unique y) (zeros n_classes fd)))"

definition fit ::
  "('n, 'r) library \<Rightarrow> ('n, 'r) plda \<Rightarrow> mat \<Rightarrow> int list \<Rightarrow> (py_error + unit) \<times> ('n, 'r) plda" where
  "fit K s X y =
     and_then (fit_prepare K s X y) (\<lambda>(y_counts, classes, Xn) s1.
     eval_in (fit_class_sums s1 Xn y) s1 (\<lambda>F.
     eval_in (np_dot (transpose_mat Xn) Xn) s1 (\<lambda>X_sqr.
     and_then (em_loop (nat (num_iter s1)) K Xn X_sqr F y_counts s1) (\<lambda>_ s2.
     eval_in (bind_err (case Phi_m s2 of None \<Rightarrow> Inl AttributeError | Some Ph \<Rightarrow> Inr Ph)
                (\<lambda>Ph. np_dot Ph (transpose_mat Ph))) s2 (\<lambda>SB.
     let s3 = s2\<lparr>Sb_m := Some SB\<rparr> in
     eval_in (bind_err (need_mat (Sigma_m s3)) (np_elementwise (+) SB)) s3 (\<lambda>ST.
     let s4 = s3\<lparr>St_m := Some ST\<rparr> in
     and_then (update_caches K s4) (\<lambda>_ s5.
     eval_in (k_class_avg K Xn y classes) s5 (\<lambda>model_vecs.
     eval_in (bind_err (get_attr (Uk_m s5)) (np_dot model_vecs)) s5 (\<lambda>Xm.
       (Inr (), s5\<lparr>X_model_m := Attr Xm\<rparr>))))))))))"

subsection \<open>\<open>transform\<close> and \<open>predict_log_proba\<close>\<close>

definition transform :: "('n, 'r) library \<Rightarrow> ('n, 'r) plda \<Rightarrow> mat \<Rightarrow> py_error + mat" where
  "transform K s X =
     (if \<not> is_fitted s then Inl (RuntimeError ''This model hasn't been fitted!'')
      else
        bind_err (k_norm_transform K (normalizer s) X) (\<lambda>X_norm.
        bind_err (get_attr (Uk_m s)) (\<lambda>Uk.
          np_dot X_norm Uk)))"

definition predict_log_proba ::
  "('n, 'r) library \<Rightarrow> ('n, 'r) plda \<Rightarrow> mat \<Rightarrow> mat option \<Rightarrow> py_error + mat" where
  "predict_log_proba K s X X_model =
     (if \<not> is_fitted s then Inl (RuntimeError ''This model hasn't been fitted!'')
      else
        bind_err (get_attr (Uk_m s)) (\<lambda>Uk.
        bind_err (get_attr (Q_hat_m s)) (\<lambda>Q_hat.
        bind_err (get_attr (Lambda_m s)) (\<lambda>La.
        bind_err (case X_model of
                    None \<Rightarrow> get_attr (X_model_m s)
                  | Some M \<Rightarrow> bind_err (k_norm_transform K (normalizer s) M) (\<lambda>T. np_dot T Uk))
          (\<lambda>Xm.
        bind_err (num_classes s) (\<lambda>n_classes.
        if nrows Xm \<noteq> n_classes
        then Inl (ValueError ''The model matrix contains a different number of classes'')
        else
          bind_err (bind_err (k_norm_transform K (normalizer s) X) (\<lambda>T. np_dot T Uk)) (\<lambda>Xp.
          bind_err (bind_err (np_dot Xm Q_hat) (\<lambda>A. np_elementwise times A Xm)) (\<lambda>H1.
          bind_err (bind_err (np_dot Xp Q_hat) (\<lambda>A. np_elementwise times A Xp)) (\<lambda>H2.
          bind_err (bind_err (np_dot Xm La) (\<lambda>A. np_dot Xp (transpose_mat A))) (\<lambda>H12.
          bind_err (np_elementwise (+) (smult 2 H12) (transpose_mat (row_sums H1))) (\<lambda>S1.
            np_elementwise (+) S1 (row_sums H2))))))))))))"

subsection \<open>A library in exact arithmetic, for examples\<close>

text \<open>
  Gauss-Jordan elimination on the rows of \<open>A\<close> extended by the rows of \<open>B\<close>: the exact
  solution of \<open>A Z = B\<close>, or nothing when \<open>A\<close> is singular. \<open>done\<close> are the rows that
  already hold a pivot, \<open>todo\<close> the others, \<open>c\<close> the column at work.
\<close>

fun gauss_jordan :: "nat \<Rightarrow> nat \<Rightarrow> real list list \<Rightarrow> real list list \<Rightarrow> real list list option" where
  "gauss_jordan 0 c done todo = Some done"
| "gauss_jordan (Suc n) c done todo =
     (case find (\<lambda>r. r ! c \<noteq> 0) todo of
        None \<Rightarrow> None
      | Some p \<Rightarrow>
          (let p1 = map (\<lambda>x. x / p ! c) p;
               clear = (\<lambda>r. map (\<lambda>(x, y). x - r ! c * y) (zip r p1))
           in gauss_jordan n (Suc c) (map clear done @ [p1]) (map clear (remove1 p todo))))"

definition exact_solve :: "mat \<Rightarrow> mat \<Rightarrow> py_error + mat" where
  "exact_solve A B =
     (if nrows A \<noteq> ncols A \<or> nrows B \<noteq> nrows A then Inl (ValueError ''incompatible dimensions'')
      else case gauss_jordan (nrows A) 0 [] (map (\<lambda>(a, b). a @ b) (zip (rows A) (rows B))) of
             None \<Rightarrow> Inl LinAlgError
           | Some rs \<Rightarrow> Inr \<lparr>ncols = ncols B, rows = map (drop (ncols A)) rs\<rparr>)"

fun first_seen :: "nat list \<Rightarrow> nat list" where
  "first_seen [] = []"
| "first_seen (x # xs) = x # first_seen (filter (\<lambda>y. y \<noteq> x) xs)"

text \<open>
  The normalizer does nothing, the random matrices are zero, \<open>svd\<close>, \<open>cholesky\<close> and the
  class averages are not computed (and are not called in the examples).
\<close>

definition example_library :: "(unit, unit) library" where
  "example_library =
     \<lparr>k_randn = (\<lambda>rnd r c. (zeros r c, rnd)),
      k_norm_fit = (\<lambda>nrm X y. Inr nrm),
      k_norm_transform = (\<lambda>nrm X. Inr X),
      k_solve = exact_solve,
      k_inv = (\<lambda>A. exact_solve A (eye (nrows A))),
      k_svd = (\<lambda>A. Inl LinAlgError),
      k_cholesky = (\<lambda>A. Inl LinAlgError),
      k_class_avg = (\<lambda>X y classes. Inl LinAlgError),
      k_unique = first_seen\<rparr>"

text \<open>
  An object after \<open>initialize\<close> with three features and two factors, whose residual
  covariance \<open>Sigma_\<close> is not symmetric (\<open>initialize\<close> adds a random matrix to it), and
  two samples of two classes.
\<close>

definition example_plda :: "(unit, unit) plda" where
  "example_plda =
     (PLDA_init 2 1 () None ''float64'' () 0 Missing)
       \<lparr>feat_dim := Some 3, labels := Some [0, 1],
        Sigma_m := Some \<lparr>ncols = 3, rows = [[1, 1, 0], [0, 1, 0], [0, 0, 1]]\<rparr>,
        Phi_m := Some \<lparr>ncols = 2, rows = [[1, 0], [0, 1], [0, 0]]\<rparr>,
        Sb_m := Some (zeros 3 3), St_m := Some (zeros 3 3)\<rparr>"

definition example_X :: mat where
  "example_X = \<lparr>ncols = 3, rows = [[1, 0, 0], [0, 1, 0]]\<rparr>"

section \<open>Verified properties\<close>

subsection \<open>The edit distance\<close>

lemma lev_0_right: "lev a b i 0 = i"
  by (cases i) simp_all

lemma lev_sym: "lev a b i j = lev b a j i"
proof (induction a b i j rule: lev.induct)
  case (1 a b j)
  then show ?case by (simp add: lev_0_right)
next
  case (2 a b i)
  then show ?case by simp
next
  case (3 a b i j)
  then show ?case by (simp add: min.commute eq_commute)
qed

lemma lev_up_i: "lev a b (Suc i) j \<le> lev a b i j + 1"
  by (cases j) (simp_all add: lev_0_right)

lemma lev_up_j: "lev a b i (Suc j) \<le> lev a b i j + 1"
  by (cases i) simp_all

lemma lev_low_j: "lev a b i j \<le> lev a b i (Suc j) + 1"
proof (induction i arbitrary: j)
  case 0
  then show ?case by simp
next
  case (Suc i)
  have u: "lev a b (Suc i) j \<le> lev a b i j + 1" by (rule lev_up_i)
  have l: "lev a b i j \<le> lev a b i (Suc j) + 1" by (rule Suc.IH)
  show ?case using u l by (simp add: min_def)
qed

lemma lev_low_i: "lev a b i j \<le> lev a b (Suc i) j + 1"
  using lev_low_j [of b a j i] by (simp add: lev_sym [of a b])

lemma lev_match: "a ! i = b ! j \<Longrightarrow> lev a b (Suc i) (Suc j) = lev a b i j"
  using lev_low_i [of a b i j] lev_low_j [of a b i j] by (simp add: min_def)

lemma lev_mismatch: "a ! i \<noteq> b ! j \<Longrightarrow>
  lev a b (Suc i) (Suc j) = 1 + min (lev a b i j) (min (lev a b (Suc i) j) (lev a b i (Suc j)))"
  by (simp add: min_def)

lemma enumerate_take_Suc:
  "k < length xs \<Longrightarrow> enumerate 0 (take (Suc k) xs) = enumerate 0 (take k xs) @ [(k, xs ! k)]"
  by (simp add: take_Suc_conv_app_nth enumerate_append_eq)

lemma lev_inner_row:
  assumes ds: "ds = map (\<lambda>i. lev s1 s2 i j) [0 ..< length s1 + 1]"
    and k: "k \<le> length s1"
  shows "fold (lev_inner (s2 ! j) ds) (enumerate 0 (take k s1)) [j + 1]
         = map (\<lambda>i. lev s1 s2 i (Suc j)) [0 ..< k + 1]"
  using k
proof (induction k)
  case 0
  then show ?case by simp
next
  case (Suc k)
  then have k: "k < length s1" by simp
  have IH: "fold (lev_inner (s2 ! j) ds) (enumerate 0 (take k s1)) [j + 1]
         = map (\<lambda>i. lev s1 s2 i (Suc j)) [0 ..< k + 1]"
    using Suc by simp
  have d0: "ds ! k = lev s1 s2 k j" using k by (simp add: ds nth_append)
  have "ds ! Suc k = (\<lambda>i. lev s1 s2 i j) ([0 ..< length s1 + 1] ! Suc k)"
    unfolding ds using k by (intro nth_map) simp
  also have "[0 ..< length s1 + 1] ! Suc k = Suc k"
    using k nth_upt [of 0 "Suc k" "length s1 + 1"] by simp
  finally have d1: "ds ! Suc k = lev s1 s2 (Suc k) j" .
  show ?case
    by (simp only: enumerate_take_Suc [OF k] fold_append comp_apply IH)
      (simp add: lev_inner_def d0 d1 lev_match lev_mismatch del: lev.simps)
qed

lemma lev_outer_rows:
  "j \<le> length s2 \<Longrightarrow>
   fold (lev_outer s1) (enumerate 0 (take j s2)) [0 ..< length s1 + 1]
   = map (\<lambda>i. lev s1 s2 i j) [0 ..< length s1 + 1]"
proof (induction j)
  case 0
  show ?case by (simp add: lev_0_right del: upt_Suc) 
next
  case (Suc j)
  then have j: "j < length s2" by simp
  have IH: "fold (lev_outer s1) (enumerate 0 (take j s2)) [0 ..< length s1 + 1]
   = map (\<lambda>i. lev s1 s2 i j) [0 ..< length s1 + 1]" using Suc by simp
  have "lev_outer s1 (j, s2 ! j) (map (\<lambda>i. lev s1 s2 i j) [0 ..< length s1 + 1])
      = map (\<lambda>i. lev s1 s2 i (Suc j)) [0 ..< length s1 + 1]"
    unfolding lev_outer_def prod.case
    using lev_inner_row [OF refl, of "length s1" s1 s2 j] by simp
  then show ?case
    by (simp only: enumerate_take_Suc [OF j] fold_append comp_apply IH fold_simps)
qed

lemma lev_fold_last:
  "last (fold (lev_outer s1) (enumerate 0 s2) [0 ..< length s1 + 1]) = edit_distance s1 s2"
  using lev_outer_rows [of "length s2" s2 s1] by (simp add: edit_distance_def)

lemma edit_distance_sym: "edit_distance a b = edit_distance b a"
  by (simp add: edit_distance_def lev_sym [of a b])

lemma LevenshteinDistance_edit_distance: "LevenshteinDistance s1 s2 = edit_distance s1 s2"
proof (cases "length s1 > length s2")
  case True
  then show ?thesis
    unfolding LevenshteinDistance_def Let_def
    by (simp only: if_True prod.case lev_fold_last edit_distance_sym [of s2 s1])
next
  case False
  then show ?thesis
    unfolding LevenshteinDistance_def Let_def
    by (simp only: if_False prod.case lev_fold_last)
qed

lemma ler_results_edit_distance:
  "\<forall>p\<in>set ps. fst p \<noteq> [] \<Longrightarrow>
   ler_results ps = Inr (map (\<lambda>(t, p). real (edit_distance t p) / real (length t)) ps)"
  by (induction ps) (auto simp: bind_err_def LevenshteinDistance_edit_distance)

lemma LER_Nested_mean:
  assumes "yt \<noteq> []" and "yp \<noteq> []" and "\<forall>p\<in>set (zip yt yp). fst p \<noteq> []"
  shows "LER (Nested yt) (Nested yp) True =
         Inr (Mean (np_mean (map (\<lambda>(t, p). real (edit_distance t p) / real (length t)) (zip yt yp))))"
proof -
  from assms(1) obtain t ts where yt: "yt = t # ts" by (cases yt) auto
  from assms(2) obtain p ps where yp: "yp = p # ps" by (cases yp) auto
  have "ler_results (zip yt yp) =
        Inr (map (\<lambda>(t, p). real (edit_distance t p) / real (length t)) (zip yt yp))"
    by (rule ler_results_edit_distance [OF assms(3)])
  then show ?thesis
    unfolding LER_def yt yp by (simp add: bind_err_def)
qed

text \<open>
  C8. \<open>LevenshteinDistance\<close> is the classic edit distance on all inputs, in particular 3
  on "kitten" and "sitting"; on a batch of sequences with non-empty references \<open>LER\<close> is
  the mean of edit distance over reference length, in particular 0 for
  [[a, b, c]] against itself and 1/3 for [[a, b, c]] against [[a, x, c]].
\<close>

theorem LevenshteinDistance_LER_correct:
  "LevenshteinDistance s1 s2 = edit_distance s1 s2
   \<and> LevenshteinDistance ''kitten'' ''sitting'' = 3
   \<and> (yt \<noteq> [] \<and> yp \<noteq> [] \<and> (\<forall>p\<in>set (zip yt yp). fst p \<noteq> []) \<longrightarrow>
        LER (Nested yt) (Nested yp) True =
        Inr (Mean (np_mean (map (\<lambda>(t, p). real (edit_distance t p) / real (length t))
                                (zip yt yp)))))
   \<and> LER (Nested [[''a'', ''b'', ''c'']]) (Nested [[''a'', ''b'', ''c'']]) True = Inr (Mean 0)
   \<and> LER (Nested [[''a'', ''b'', ''c'']]) (Nested [[''a'', ''x'', ''c'']]) True = Inr (Mean (1 / 3))"
proof (intro conjI impI)
  show "LevenshteinDistance s1 s2 = edit_distance s1 s2"
    by (rule LevenshteinDistance_edit_distance)
  show "LevenshteinDistance ''kitten'' ''sitting'' = 3"
    by code_simp
  show "LER (Nested [[''a'', ''b'', ''c'']]) (Nested [[''a'', ''b'', ''c'']]) True = Inr (Mean 0)"
    by code_simp
  show "LER (Nested [[''a'', ''b'', ''c'']]) (Nested [[''a'', ''x'', ''c'']]) True = Inr (Mean (1 / 3))"
    by code_simp
next
  assume "yt \<noteq> [] \<and> yp \<noteq> [] \<and> (\<forall>p\<in>set (zip yt yp). fst p \<noteq> [])"
  then show "LER (Nested yt) (Nested yp) True =
        Inr (Mean (np_mean (map (\<lambda>(t, p). real (edit_distance t p) / real (length t))
                                (zip yt yp))))"
    by (intro LER_Nested_mean) simp_all
qed

theorem LevenshteinDistance_LER_correct_witness:
  "LevenshteinDistance ''flaw'' ''lawn'' = edit_distance ''flaw'' ''lawn''
   \<and> edit_distance ''flaw'' ''lawn'' = 2
   \<and> LER (Nested [[1, 2, 3, 4], [5, 6 :: int]]) (Nested [[1, 3, 4], [6, 5]]) True
       = Inr (Mean (5 / 8))"
proof -
  let ?yt = "[[1, 2, 3, 4], [5, 6 :: int]]" and ?yp = "[[1, 3, 4], [6, 5 :: int]]"
  have hyp: "?yt \<noteq> [] \<and> ?yp \<noteq> [] \<and> (\<forall>p\<in>set (zip ?yt ?yp). fst p \<noteq> [])"
    by simp
  have 1: "LevenshteinDistance ''flaw'' ''lawn'' = edit_distance ''flaw'' ''lawn''"
    using LevenshteinDistance_LER_correct [of "''flaw''" "''lawn''" "[]" "[]"] by blast
  have 2: "LevenshteinDistance ''flaw'' ''lawn'' = 2" by code_simp
  have "LER (Nested ?yt) (Nested ?yp) True =
        Inr (Mean (np_mean (map (\<lambda>(t, p). real (edit_distance t p) / real (length t))
                                (zip ?yt ?yp))))"
    using LevenshteinDistance_LER_correct [of "[]" "[]" ?yt ?yp] hyp by blast
  moreover have "LER (Nested ?yt) (Nested ?yp) True = Inr (Mean (5 / 8))" by code_simp
  ultimately show ?thesis using 1 2 by simp
qed

subsection \<open>The detection error trade-off\<close>

lemma length_argsort: "length (argsort xs) = length xs"
  by (simp add: argsort_def)

lemma set_argsort: "set (argsort xs) = {0 ..< length xs}"
proof -
  have m: "map snd (zip xs [0 ..< length xs]) = [0 ..< length xs]"
    by (rule map_snd_zip) simp
  have "set (argsort xs) = snd ` set (zip xs [0 ..< length xs])"
    by (simp add: argsort_def)
  also have "\<dots> = set (map snd (zip xs [0 ..< length xs]))"
    by (simp only: set_map)
  also have "\<dots> = set [0 ..< length xs]" by (simp only: m)
  finally show ?thesis unfolding set_upt .
qed

lemma length_cumsum_from: "length (cumsum_from acc xs) = length xs"
  by (induction xs arbitrary: acc) simp_all

lemma cumsum_from_lower:
  "\<forall>x\<in>set xs. 0 \<le> x \<Longrightarrow> s \<in> set (cumsum_from acc xs) \<Longrightarrow> acc \<le> s"
proof (induction xs arbitrary: acc)
  case Nil
  then show ?case by simp
next
  case (Cons x xs)
  from Cons.prems have x: "0 \<le> x" and xs: "\<forall>y\<in>set xs. 0 \<le> y" by simp_all
  from Cons.prems(2) consider "s = acc + x" | "s \<in> set (cumsum_from (acc + x) xs)" by auto
  then show ?case
  proof cases
    case 1
    then show ?thesis using x by simp
  next
    case 2
    then have "acc + x \<le> s" using Cons.IH [OF xs] by blast
    then show ?thesis using x by simp
  qed
qed

lemma cumsum_from_sorted: "\<forall>x\<in>set xs. 0 \<le> x \<Longrightarrow> sorted (cumsum_from acc xs)"
proof (induction xs arbitrary: acc)
  case Nil
  then show ?case by simp
next
  case (Cons x xs)
  from Cons.prems have xs: "\<forall>y\<in>set xs. 0 \<le> y" by simp
  show ?case using Cons.IH [OF xs] cumsum_from_lower [OF xs] by auto
qed

lemma false_count_upper:
  "\<forall>x\<in>set xs. x \<le> 1 \<Longrightarrow> (k, s) \<in> set (zip [m ..< m + length xs] (cumsum_from acc xs))
   \<Longrightarrow> s - real k \<le> acc - real m + 1"
proof (induction xs arbitrary: acc m)
  case Nil
  then show ?case by simp
next
  case (Cons x xs)
  from Cons.prems have x: "x \<le> 1" and xs: "\<forall>y\<in>set xs. y \<le> 1" by simp_all
  have upt: "[m ..< m + length (x # xs)] = m # [Suc m ..< Suc m + length xs]"
    by (subst upt_conv_Cons) simp_all
  from Cons.prems(2) consider "k = m" "s = acc + x"
    | "(k, s) \<in> set (zip [Suc m ..< Suc m + length xs] (cumsum_from (acc + x) xs))"
    unfolding upt by auto
  then show ?case
  proof cases
    case 1
    then show ?thesis using x by simp
  next
    case 2
    then have "s - real k \<le> (acc + x) - real (Suc m) + 1" using Cons.IH [OF xs] by blast
    then show ?thesis using x by simp
  qed
qed

lemma sumfalse_decreasing:
  "\<forall>x\<in>set xs. x \<le> 1 \<Longrightarrow>
   sorted_wrt (\<ge>) (map (\<lambda>(k, s). c - (real k - s)) (zip [m ..< m + length xs] (cumsum_from acc xs)))"
proof (induction xs arbitrary: acc m)
  case Nil
  then show ?case by simp
next
  case (Cons x xs)
  from Cons.prems have xs: "\<forall>y\<in>set xs. y \<le> 1" by simp
  have upt: "[m ..< m + length (x # xs)] = m # [Suc m ..< Suc m + length xs]"
    by (subst upt_conv_Cons) simp_all
  have tail: "c - (real k - s) \<le> c - (real m - (acc + x))"
    if "(k, s) \<in> set (zip [Suc m ..< Suc m + length xs] (cumsum_from (acc + x) xs))" for k s
    using false_count_upper [OF xs that] by simp
  show ?case
    unfolding upt using Cons.IH [OF xs, of "Suc m" "acc + x"] tail by auto
qed

lemma marks_of_sorted_scores:
  assumes "scores0 = map (\<lambda>x. (x, 0)) fs @ map (\<lambda>x. (x, 1::real)) (ts :: real list)"
    and "idx = map (\<lambda>k. argsort (map snd scores0) ! k) (argsort (map fst scores0))"
    and "m \<in> set (map snd (map (\<lambda>k. scores0 ! k) idx))"
  shows "m = 0 \<or> m = 1"
proof -
  from assms(3) obtain k where k: "k \<in> set idx" and m: "m = snd (scores0 ! k)" by auto
  from k obtain j where j: "j \<in> set (argsort (map fst scores0))"
    and kj: "k = argsort (map snd scores0) ! j" unfolding assms(2) by auto
  from j have "j < length scores0" by (simp add: set_argsort)
  then have "k \<in> set (argsort (map snd scores0))"
    unfolding kj by (intro nth_mem) (simp add: length_argsort)
  then have "k < length scores0" by (simp add: set_argsort)
  then have "scores0 ! k \<in> set scores0" by simp
  then show ?thesis unfolding m assms(1) by auto
qed

lemma det_rates_monotone:
  assumes ts: "ts \<noteq> []" and fs: "fs \<noteq> []"
  shows "\<exists>pm pf th. det_rates ts fs = Inr (map Some pm, map Some pf, th)
           \<and> sorted pm \<and> sorted (rev pf)"
proof -
  define scores0 where "scores0 = map (\<lambda>x. (x, 0)) fs @ map (\<lambda>x. (x, 1::real)) ts"
  define idx where "idx = map (\<lambda>k. argsort (map snd scores0) ! k) (argsort (map fst scores0))"
  define scores where "scores = map (\<lambda>k. scores0 ! k) idx"
  define marks where "marks = map snd scores"
  define sumtrue where "sumtrue = cumsum marks"
  define sumfalse where "sumfalse =
    map (\<lambda>(k, s). real (length fs) - (real k - s)) (zip [1 ..< length ts + length fs + 1] sumtrue)"
  define pm where "pm = map (\<lambda>s. s / real (length ts)) sumtrue"
  define pf where "pf = map (\<lambda>s. s / real (length fs)) sumfalse"
  have len: "length scores = length ts + length fs"
    by (simp add: scores_def idx_def length_argsort scores0_def)
  then obtain r rs where r: "scores = r # rs" using ts by (cases scores) auto
  have marks: "\<forall>m\<in>set marks. m = 0 \<or> m = 1"
    unfolding marks_def scores_def
    using marks_of_sorted_scores [OF scores0_def idx_def] by blast
  have lenm: "length marks = length ts + length fs" by (simp add: marks_def len)
  have "sorted sumtrue"
    unfolding sumtrue_def cumsum_def using marks by (intro cumsum_from_sorted) auto
  then have 1: "sorted pm"
    unfolding pm_def by (simp add: sorted_map sorted_wrt_mono_rel [of _ "(\<le>)"] divide_right_mono)
  have "[1 ..< length ts + length fs + 1] = [1 ..< 1 + length marks]"
    by (simp only: lenm ac_simps)
  moreover have "\<forall>x\<in>set marks. x \<le> 1" using marks by auto
  ultimately have "sorted_wrt (\<ge>) sumfalse"
    unfolding sumfalse_def sumtrue_def cumsum_def
    by (simp only: sumfalse_decreasing)
  then have "sorted_wrt (\<ge>) pf"
    unfolding pf_def by (simp add: sorted_wrt_map sorted_wrt_mono_rel [of _ "(\<ge>)"] divide_right_mono)
  then have 2: "sorted (rev pf)" by (simp add: sorted_wrt_rev)
  have npm: "map (\<lambda>s. np_divide s (real (length ts))) sumtrue = map Some pm"
    using ts by (simp add: pm_def np_divide_def)
  have npf: "map (\<lambda>s. np_divide s (real (length fs))) sumfalse = map Some pf"
    using fs by (simp add: pf_def np_divide_def)
  have "det_rates ts fs = Inr (map Some pm, map Some pf, [fst r, snd r])"
    unfolding det_rates_def Let_def
    unfolding scores0_def [symmetric] idx_def [symmetric] scores_def [symmetric]
      marks_def [symmetric] sumtrue_def [symmetric]
    unfolding sumfalse_def [symmetric] npm npf r
    by (simp add: case_prod_beta del: upt_Suc)
  with 1 2 show ?thesis by blast
qed

text \<open>
  C4. Whenever the true scores and the false scores that \<open>det_curve\<close> works on are both
  non-empty, it returns, and every entry of \<open>Pmiss\<close> and \<open>Pfa\<close> is a finite number;
  \<open>Pmiss\<close> is non-decreasing and \<open>Pfa\<close> is non-increasing along the index.
\<close>

theorem det_curve_monotone:
  assumes "det_scores y_true y_score pos_label true_scores false_scores = Inr (ts, fs)"
    and "ts \<noteq> []" and "fs \<noteq> []"
  shows "\<exists>pm pf th.
           det_curve y_true y_score pos_label true_scores false_scores
             = Inr (map Some pm, map Some pf, th)
           \<and> sorted pm \<and> sorted (rev pf)"
  using det_rates_monotone [OF assms(2,3)] by (simp add: det_curve_def bind_err_def assms(1))

theorem det_curve_monotone_witness:
  "det_curve None None None (Some [2, 2]) (Some [2, 1])
     = Inr (map Some [0, 0, 1 / 2, 1], map Some [1 / 2, 0, 0, 0], [1, 0])
   \<and> sorted [0, 0, 1 / 2, 1 :: real] \<and> sorted (rev [1 / 2, 0, 0, 0 :: real])"
proof -
  have s: "det_scores None None None (Some [2, 2]) (Some [2, 1]) = Inr ([2, 2], [2, 1])"
    by (simp add: det_scores_def)
  have v: "det_curve None None None (Some [2, 2]) (Some [2, 1])
     = Inr (map Some [0, 0, 1 / 2, 1], map Some [1 / 2, 0, 0, 0], [1, 0])"
    by code_simp
  obtain pm pf th where
    e: "det_curve None None None (Some [2, 2]) (Some [2, 1]) = Inr (map Some pm, map Some pf, th)"
    and m: "sorted pm" "sorted (rev pf)"
    using det_curve_monotone [OF s] by auto
  from e v have "map Some pm = map Some [0, 0, 1 / 2, 1]" "map Some pf = map Some [1 / 2, 0, 0, 0]"
    by simp_all
  then have "pm = [0, 0, 1 / 2, 1]" "pf = [1 / 2, 0, 0, 0]"
    by (simp_all only: inj_map_eq_map [OF inj_Some])
  with m v show ?thesis by simp
qed

text \<open>
  C1. On the true scores [0.35, 0.8] and the false scores [0.1, 0.4] (the data of the
  docstring's example), \<open>Pmiss\<close> and \<open>Pfa\<close> have one entry per score, four, while the
  third result is the first row of the sorted array, the lowest score and its class
  mark: two entries, not the four sorted scores.
\<close>

theorem det_curve_threshold_first_row:
  "det_curve None None None (Some [35 / 100, 8 / 10]) (Some [1 / 10, 4 / 10])
     = Inr ([Some 0, Some (1 / 2), Some (1 / 2), Some 1],
            [Some (1 / 2), Some (1 / 2), Some 0, Some 0],
            [1 / 10, 0])"
  by code_simp

subsection \<open>Sequencing\<close>

lemma bind_err_Inr [simp]: "bind_err (Inr x) f = f x"
  by (simp add: bind_err_def)

lemma bind_err_Inl [simp]: "bind_err (Inl e) f = Inl e"
  by (simp add: bind_err_def)

lemma map_err_all_Inr:
  "\<forall>x\<in>set xs. f x = Inr (g x) \<Longrightarrow> map_err f xs = Inr (map g xs)"
  by (induction xs) simp_all

lemma map_err_first_error:
  assumes "\<forall>x\<in>set xs. f x = Inl e \<or> (\<exists>v. f x = Inr v)" and "\<exists>x\<in>set xs. f x = Inl e"
  shows "map_err f xs = Inl e"
  using assms
proof (induction xs)
  case Nil
  then show ?case by simp
next
  case (Cons x xs)
  show ?case
  proof (cases "f x")
    case (Inl e')
    then show ?thesis using Cons.prems(1) by auto
  next
    case (Inr v)
    then have "\<exists>x\<in>set xs. f x = Inl e" using Cons.prems(2) by auto
    then have "map_err f xs = Inl e" using Cons.IH Cons.prems(1) by simp
    then show ?thesis using Inr by simp
  qed
qed

lemma fold_err_total:
  "(\<And>x s. x \<in> set xs \<Longrightarrow> \<exists>s'. f x s = Inr s') \<Longrightarrow> \<exists>s'. fold_err f xs s = Inr s'"
proof (induction xs arbitrary: s)
  case Nil
  then show ?case by simp
next
  case (Cons x xs)
  obtain s1 where s1: "f x s = Inr s1" using Cons.prems [of x s] by auto
  have "\<exists>s'. fold_err f xs s1 = Inr s'"
    by (rule Cons.IH) (simp add: Cons.prems)
  then show ?case by (simp add: s1)
qed

lemma norm_index_nonneg: "0 \<le> i \<Longrightarrow> i < int n \<Longrightarrow> norm_index n i = Inr (nat i)"
  by (simp add: norm_index_def)

lemma norm_index_valid: "- int n \<le> i \<Longrightarrow> i < int n \<Longrightarrow> \<exists>c. norm_index n i = Inr c"
  by (simp add: norm_index_def)

lemma masked_column_nonneg:
  "length msk = nrows M \<Longrightarrow> 0 \<le> j \<Longrightarrow> j < int (ncols M) \<Longrightarrow>
   masked_column M msk j = Inr (map (\<lambda>r. r ! nat j) (map fst (filter snd (zip (rows M) msk))))"
  by (simp add: masked_column_def norm_index_nonneg)

lemma masked_column_valid:
  "length msk = nrows M \<Longrightarrow> - int (ncols M) \<le> j \<Longrightarrow> j < int (ncols M) \<Longrightarrow>
   \<exists>col. masked_column M msk j = Inr col"
  using norm_index_valid [of "ncols M" j] by (auto simp: masked_column_def)

lemma zip_as_index_map:
  "length rs = length ys \<Longrightarrow> zip rs ys = map (\<lambda>k. (rs ! k, ys ! k)) [0 ..< length ys]"
  by (rule nth_equalityI) simp_all

lemma count_selected:
  assumes "length rs = length ys"
  shows "length (filter P (map (\<lambda>r. r ! c) (map fst (filter snd (zip rs (map (\<lambda>t. t = i) ys))))))
         = length [k \<leftarrow> [0 ..< length ys]. ys ! k = i \<and> P (rs ! k ! c)]"
proof -
  have z: "zip rs (map (\<lambda>t. t = i) ys) = map (\<lambda>k. (rs ! k, ys ! k = i)) [0 ..< length ys]"
    using assms by (intro nth_equalityI) simp_all
  show ?thesis
    unfolding z by (simp add: filter_map comp_def)
qed

lemma class_size_count:
  "max (real (length (filter (\<lambda>b. b) (map (\<lambda>t. t = i) ys)))) 1 = spec_class_size ys i"
proof -
  have "length (filter (\<lambda>b. b) (map (\<lambda>t. t = i) ys)) = count_list ys i"
    by (induction ys) simp_all
  then show ?thesis by (simp add: spec_class_size_def)
qed

lemma eval_in_Inr [simp]: "eval_in (Inr x) s k = k x"
  by (simp add: eval_in_def)

lemma eval_in_Inl [simp]: "eval_in (Inl e) s k = (Inl e, s)"
  by (simp add: eval_in_def)

lemma and_then_Inr [simp]: "and_then (Inr x, s) k = k x s"
  by (simp add: and_then_def)

lemma and_then_Inl [simp]: "and_then (Inl e, s) k = (Inl e, s)"
  by (simp add: and_then_def)

subsection \<open>The average detection cost\<close>

lemma fold_err_sums:
  assumes "\<And>x fr fa. x \<in> set xs \<Longrightarrow> f x (fr, fa) = Inr (fr + a x, fa + b x)"
  shows "fold_err f xs (fr, fa) = Inr (fr + sum_list (map a xs), fa + sum_list (map b xs :: real list))"
  using assms
proof (induction xs arbitrary: fr fa)
  case Nil
  then show ?case by simp
next
  case (Cons x xs)
  have "fold_err f xs (fr + a x, fa + b x)
        = Inr (fr + a x + sum_list (map a xs), fa + b x + sum_list (map b xs))"
    by (rule Cons.IH) (simp add: Cons.prems)
  then show ?case by (simp add: Cons.prems add.assoc)
qed

lemma sum_list_single:
  "distinct xs \<Longrightarrow> i \<in> set xs \<Longrightarrow> (\<Sum>j\<leftarrow>xs. if j = i then (m::real) else 0) = m"
proof (induction xs)
  case Nil
  then show ?case by simp
next
  case (Cons x xs)
  show ?case
  proof (cases "x = i")
    case True
    then have "i \<notin> set xs" using Cons.prems by simp
    then have "(\<Sum>j\<leftarrow>xs. if j = i then m else 0) = 0"
      by (induction xs) auto
    then show ?thesis using True by simp
  next
    case False
    then show ?thesis using Cons by simp
  qed
qed

lemma cavg_lang_j_step:
  assumes "length y_true = nrows y_llr"
    and "0 \<le> i" "i < int (ncols y_llr)" "0 \<le> j" "j < int (ncols y_llr)"
  shows "cavg_lang_j y_llr (map (\<lambda>t. t = i) y_true) (spec_class_size y_true i) (Finite t) i j (fr, fa)
         = Inr (fr + (if j = i then spec_miss y_llr y_true t i else 0),
                fa + (if j \<noteq> i then spec_fa y_llr y_true t i j else 0))"
proof -
  let ?msk = "map (\<lambda>t. t = i) y_true"
  define col where "col c = map (\<lambda>r. r ! c) (map fst (filter snd (zip (rows y_llr) ?msk)))" for c
  have len: "length (rows y_llr) = length y_true" using assms(1) by (simp add: nrows_def)
  have m: "length ?msk = nrows y_llr" using assms(1) by simp
  have ci: "masked_column y_llr ?msk i = Inr (col (nat i))"
    unfolding col_def by (rule masked_column_nonneg [OF m assms(2,3)])
  have cj: "masked_column y_llr ?msk j = Inr (col (nat j))"
    unfolding col_def by (rule masked_column_nonneg [OF m assms(4,5)])
  have miss: "real (length (filter (\<lambda>x. lt_thresh x (Finite t)) (col (nat i)))) / spec_class_size y_true i
              = spec_miss y_llr y_true t i"
    unfolding col_def lt_thresh.simps spec_miss_def
    by (simp only: count_selected [OF len, of "\<lambda>x. x < t"])
  have fa: "real (length (filter (\<lambda>x. ge_thresh x (Finite t)) (col (nat j)))) / spec_class_size y_true i
              = spec_fa y_llr y_true t i j"
    unfolding col_def ge_thresh.simps spec_fa_def
    by (simp only: count_selected [OF len, of "\<lambda>x. t \<le> x"])
  show ?thesis
  proof (cases "j = i")
    case True
    then show ?thesis
      unfolding cavg_lang_j_def prod.case by (simp only: ci bind_err_Inr miss) simp
  next
    case False
    then have ne: "i \<noteq> j" by simp
    show ?thesis
      unfolding cavg_lang_j_def prod.case using False ne
      by (simp only: cj bind_err_Inr fa if_False) simp
  qed
qed

lemma cavg_lang_i_step:
  assumes "length y_true = nrows y_llr"
    and "\<forall>j\<in>set cluster. 0 \<le> j \<and> j < int (ncols y_llr)"
    and "distinct cluster" and "i \<in> set cluster"
  shows "cavg_lang_i y_llr y_true (Finite t) cluster i (fr, fa)
         = Inr (fr + spec_miss y_llr y_true t i,
                fa + (\<Sum>j\<leftarrow>filter (\<lambda>j. j \<noteq> i) cluster. spec_fa y_llr y_true t i j))"
proof -
  have i: "0 \<le> i" "i < int (ncols y_llr)" using assms(2,4) by auto
  have "fold_err (cavg_lang_j y_llr (map (\<lambda>t. t = i) y_true) (spec_class_size y_true i) (Finite t) i)
          cluster (fr, fa)
        = Inr (fr + (\<Sum>j\<leftarrow>cluster. if j = i then spec_miss y_llr y_true t i else 0),
               fa + (\<Sum>j\<leftarrow>cluster. if j \<noteq> i then spec_fa y_llr y_true t i j else 0))"
    by (rule fold_err_sums) (use assms(2) in \<open>simp add: cavg_lang_j_step [OF assms(1) i]\<close>)
  then show ?thesis
    unfolding cavg_lang_i_def Let_def class_size_count
    by (simp add: sum_list_single [OF assms(3,4)] sum_list_map_filter')
qed

lemma cavg_cluster_cost_spec:
  assumes "length y_true = nrows y_llr"
    and "\<forall>j\<in>set cluster. 0 \<le> j \<and> j < int (ncols y_llr)"
    and "distinct cluster" and "2 \<le> length cluster"
  shows "cavg_cluster_cost y_llr y_true (Finite (spec_thresh Ptar Cfa Cmiss)) Ptar Cfa Cmiss cluster
         = Inr (spec_cluster_cost y_llr y_true Ptar Cfa Cmiss cluster)"
proof -
  let ?t = "spec_thresh Ptar Cfa Cmiss"
  have "fold_err (cavg_lang_i y_llr y_true (Finite ?t) cluster) cluster (0, 0)
        = Inr (0 + (\<Sum>i\<leftarrow>cluster. spec_miss y_llr y_true ?t i),
               0 + (\<Sum>i\<leftarrow>cluster. \<Sum>j\<leftarrow>filter (\<lambda>j. j \<noteq> i) cluster. spec_fa y_llr y_true ?t i j))"
    by (rule fold_err_sums) (simp add: cavg_lang_i_step [OF assms(1,2,3)])
  moreover have "real_of_int (int (length cluster) - 1) = real (length cluster) - 1"
    by simp
  moreover have "int (length cluster) - 1 \<noteq> 0" "int (length cluster) \<noteq> 0"
    using assms(4) by auto
  ultimately show ?thesis
    unfolding cavg_cluster_cost_def spec_cluster_cost_def Let_def
    by (simp del: of_int_diff of_nat_diff)
qed

lemma cavg_thresh_spec:
  assumes "Cmiss \<noteq> 0" "0 < Cfa / Cmiss" "0 < Ptar" "Ptar < 1"
  shows "cavg_thresh Ptar Cfa Cmiss = Inr (Finite (spec_thresh Ptar Cfa Cmiss))"
  using assms by (simp add: cavg_thresh_def np_log_def spec_thresh_def)

text \<open>
  C5. Let the label vector be as long as the score matrix has rows, let there be at least
  one cluster, let every cluster hold at least two different classes, each a column of
  the matrix, and let the cost parameters give a finite threshold (\<open>Cmiss\<close> not 0,
  \<open>Cfa / Cmiss\<close> positive, \<open>Ptar\<close> strictly between 0 and 1). Then the numpy path of \<open>Cavg\<close>
  returns, for each cluster, 100 (Cmiss Ptar \<Sigma>miss + Cfa (1 - Ptar) \<Sigma>fa / (L - 1)) / L,
  where the threshold is log(Cfa / Cmiss) - log(Ptar / (1 - Ptar)), a miss is an own-class
  entry strictly below it, a false alarm a cross-class entry at or above it, and each
  count is divided by the class's sample count floored to 1; with the costs it returns
  their arithmetic mean.
\<close>

theorem Cavg_follows_formula:
  assumes "length y_true = nrows y_llr"
    and "cluster_idx \<noteq> []"
    and "\<forall>c\<in>set cluster_idx. 2 \<le> length c \<and> distinct c \<and> (\<forall>i\<in>set c. 0 \<le> i \<and> i < int (ncols y_llr))"
    and "Cmiss \<noteq> 0" "0 < Cfa / Cmiss" "0 < Ptar" "Ptar < 1"
  shows "Cavg y_llr y_true (Some cluster_idx) Ptar Cfa Cmiss False
         = Inr (map (spec_cluster_cost y_llr y_true Ptar Cfa Cmiss) cluster_idx,
                Finite (np_mean (map (spec_cluster_cost y_llr y_true Ptar Cfa Cmiss) cluster_idx)))"
proof -
  have "map_err (cavg_cluster_cost y_llr y_true (Finite (spec_thresh Ptar Cfa Cmiss)) Ptar Cfa Cmiss)
          cluster_idx
        = Inr (map (spec_cluster_cost y_llr y_true Ptar Cfa Cmiss) cluster_idx)"
    by (rule map_err_all_Inr) (use assms(3) in \<open>simp add: cavg_cluster_cost_spec [OF assms(1)]\<close>)
  then show ?thesis
    unfolding Cavg_def Let_def cavg_input_def cavg_clusters_def
    using assms(2) by (simp add: cavg_thresh_spec [OF assms(4-7)] np_mean_x_def)
qed

theorem Cavg_follows_formula_witness:
  "Cavg \<lparr>ncols = 2, rows = [[1, - 1], [- 1, 1], [2, 3]]\<rparr> [0, 1, 0] (Some [[0, 1]]) (1 / 2) 1 1 False
   = Inr ([25 / 2], Finite (25 / 2))"
proof -
  let ?M = "\<lparr>ncols = 2, rows = [[1, - 1], [- 1, 1], [2, 3 :: real]]\<rparr>"
  have "Cavg ?M [0, 1, 0] (Some [[0, 1]]) (1 / 2) 1 1 False
        = Inr (map (spec_cluster_cost ?M [0, 1, 0] (1 / 2) 1 1) [[0, 1]],
               Finite (np_mean (map (spec_cluster_cost ?M [0, 1, 0] (1 / 2) 1 1) [[0, 1]])))"
    by (rule Cavg_follows_formula) (simp_all add: nrows_def)
  moreover have "spec_cluster_cost ?M [0, 1, 0] (1 / 2) 1 1 [0, 1] = 25 / 2"
    by (simp add: spec_cluster_cost_def spec_thresh_def spec_miss_def spec_fa_def
          spec_class_size_def)
  ultimately show ?thesis by (simp add: np_mean_def)
qed

lemma cavg_lang_j_total:
  assumes "length msk = nrows y_llr"
    and "- int (ncols y_llr) \<le> i" "i < int (ncols y_llr)"
    and "- int (ncols y_llr) \<le> j" "j < int (ncols y_llr)"
  shows "\<exists>s'. cavg_lang_j y_llr msk N thresh i j s = Inr s'"
proof -
  obtain fr fa where s: "s = (fr, fa)" by (cases s)
  obtain ci where ci: "masked_column y_llr msk i = Inr ci"
    using masked_column_valid [OF assms(1,2,3)] by auto
  obtain cj where cj: "masked_column y_llr msk j = Inr cj"
    using masked_column_valid [OF assms(1,4,5)] by auto
  show ?thesis by (simp add: s cavg_lang_j_def ci cj)
qed

lemma cavg_lang_i_total:
  assumes "length y_true = nrows y_llr"
    and "\<forall>j\<in>set cluster. - int (ncols y_llr) \<le> j \<and> j < int (ncols y_llr)"
    and "i \<in> set cluster"
  shows "\<exists>s'. cavg_lang_i y_llr y_true thresh cluster i s = Inr s'"
  unfolding cavg_lang_i_def Let_def
  by (rule fold_err_total, rule cavg_lang_j_total) (use assms in auto)

lemma cavg_cluster_cost_outcome:
  assumes "length y_true = nrows y_llr"
    and "\<forall>j\<in>set cluster. - int (ncols y_llr) \<le> j \<and> j < int (ncols y_llr)"
  shows "(length cluster \<le> 1 \<longrightarrow>
            cavg_cluster_cost y_llr y_true thresh Ptar Cfa Cmiss cluster = Inl ZeroDivisionError)
       \<and> (2 \<le> length cluster \<longrightarrow>
            (\<exists>v. cavg_cluster_cost y_llr y_true thresh Ptar Cfa Cmiss cluster = Inr v))"
proof -
  have "\<exists>s'. fold_err (cavg_lang_i y_llr y_true thresh cluster) cluster (0, 0) = Inr s'"
    by (rule fold_err_total) (rule cavg_lang_i_total [OF assms])
  then obtain fr fa where
    "fold_err (cavg_lang_i y_llr y_true thresh cluster) cluster (0, 0) = Inr (fr, fa)"
    by auto
  moreover have "length cluster \<le> 1 \<Longrightarrow> int (length cluster) - 1 = 0 \<or> int (length cluster) = 0"
    by linarith
  moreover have "2 \<le> length cluster \<Longrightarrow> int (length cluster) - 1 \<noteq> 0 \<and> int (length cluster) \<noteq> 0"
    by linarith
  ultimately show ?thesis
    unfolding cavg_cluster_cost_def Let_def by (auto simp del: of_nat_eq_0_iff)
qed

text \<open>
  C10. Let the label vector be as long as the score matrix has rows and let every class
  of every cluster be a column index of the matrix. If a cluster has exactly one class
  (as the default cluster has when the matrix has one column), the numpy path of \<open>Cavg\<close>
  raises \<open>ZeroDivisionError\<close> and returns no cost, whatever the cost parameters.
\<close>

theorem Cavg_singleton_cluster:
  assumes "length y_true = nrows y_llr"
    and "\<forall>c\<in>set (cavg_clusters y_llr cluster_idx).
           \<forall>j\<in>set c. - int (ncols y_llr) \<le> j \<and> j < int (ncols y_llr)"
    and "\<exists>c\<in>set (cavg_clusters y_llr cluster_idx). length c = 1"
  shows "Cavg y_llr y_true cluster_idx Ptar Cfa Cmiss probability_input = Inl ZeroDivisionError"
proof -
  let ?M = "cavg_input probability_input y_llr"
  have M: "ncols ?M = ncols y_llr" "nrows ?M = nrows y_llr"
    by (simp_all add: cavg_input_def nrows_def)
  have cl: "cavg_clusters ?M cluster_idx = cavg_clusters y_llr cluster_idx"
    by (cases cluster_idx) (simp_all add: cavg_clusters_def M)
  show ?thesis
  proof (cases "cavg_thresh Ptar Cfa Cmiss")
    case (Inl e)
    then have "e = ZeroDivisionError" by (auto simp: cavg_thresh_def split: if_splits)
    then show ?thesis using Inl by (simp add: Cavg_def Let_def)
  next
    case (Inr thresh)
    have out: "\<And>c. c \<in> set (cavg_clusters y_llr cluster_idx) \<Longrightarrow>
      (length c \<le> 1 \<longrightarrow> cavg_cluster_cost ?M y_true thresh Ptar Cfa Cmiss c = Inl ZeroDivisionError)
      \<and> (2 \<le> length c \<longrightarrow> (\<exists>v. cavg_cluster_cost ?M y_true thresh Ptar Cfa Cmiss c = Inr v))"
      by (rule cavg_cluster_cost_outcome) (use assms(1,2) M in auto)
    have "map_err (cavg_cluster_cost ?M y_true thresh Ptar Cfa Cmiss)
            (cavg_clusters y_llr cluster_idx) = Inl ZeroDivisionError"
    proof (rule map_err_first_error)
      show "\<forall>c\<in>set (cavg_clusters y_llr cluster_idx).
              cavg_cluster_cost ?M y_true thresh Ptar Cfa Cmiss c = Inl ZeroDivisionError
              \<or> (\<exists>v. cavg_cluster_cost ?M y_true thresh Ptar Cfa Cmiss c = Inr v)"
      proof
        fix c assume c: "c \<in> set (cavg_clusters y_llr cluster_idx)"
        show "cavg_cluster_cost ?M y_true thresh Ptar Cfa Cmiss c = Inl ZeroDivisionError
              \<or> (\<exists>v. cavg_cluster_cost ?M y_true thresh Ptar Cfa Cmiss c = Inr v)"
          using out [OF c] by (cases "length c \<le> 1") auto
      qed
      show "\<exists>c\<in>set (cavg_clusters y_llr cluster_idx).
              cavg_cluster_cost ?M y_true thresh Ptar Cfa Cmiss c = Inl ZeroDivisionError"
        using assms(3) out by force
    qed
    then show ?thesis using Inr by (simp add: Cavg_def Let_def cl)
  qed
qed

theorem Cavg_singleton_cluster_witness:
  "Cavg \<lparr>ncols = 1, rows = [[1], [- 1]]\<rparr> [0, 0] None (1 / 2) 1 1 False = Inl ZeroDivisionError"
  by (rule Cavg_singleton_cluster) (simp_all add: nrows_def cavg_clusters_def)

subsection \<open>PLDA: the not-fitted guard and pickling\<close>

text \<open>
  C7. When one of the attributes \<open>Lambda_\<close>, \<open>Uk_\<close>, \<open>Q_hat_\<close>, \<open>X_model_\<close> is missing,
  \<open>transform\<close>, \<open>predict_log_proba\<close> and \<open>__getstate__\<close> each raise the \<open>RuntimeError\<close> that
  says the model is not fitted, for every input.
\<close>

theorem not_fitted_raises:
  assumes "Lambda_m s = Missing \<or> Uk_m s = Missing \<or> Q_hat_m s = Missing \<or> X_model_m s = Missing"
  shows "transform K s X = Inl (RuntimeError ''This model hasn't been fitted!'')
       \<and> predict_log_proba K s X X_model = Inl (RuntimeError ''This model hasn't been fitted!'')
       \<and> getstate s = Inl (RuntimeError ''The PLDA have not been fitted, nothing to pickle!'')"
proof -
  have "\<not> is_fitted s" using assms by (simp add: is_fitted_def)
  then show ?thesis by (simp add: transform_def predict_log_proba_def getstate_def)
qed

theorem not_fitted_raises_witness:
  "transform example_library (PLDA_init 2 12 () None ''float64'' () 0 Missing) example_X
     = Inl (RuntimeError ''This model hasn't been fitted!'')
   \<and> predict_log_proba example_library (PLDA_init 2 12 () None ''float64'' () 0 Missing) example_X None
     = Inl (RuntimeError ''This model hasn't been fitted!'')
   \<and> getstate (PLDA_init 2 12 () None ''float64'' () (0::int) Missing :: (unit, unit) plda)
     = Inl (RuntimeError ''The PLDA have not been fitted, nothing to pickle!'')"
  using not_fitted_raises [of "PLDA_init 2 12 () None ''float64'' () 0 Missing" example_library example_X None]
  by (simp add: PLDA_init_def)

text \<open>
  C2, as amended. \<open>__setstate__\<close> accepts every tuple of sixteen values: it raises
  nothing, the object counts as fitted afterwards, and \<open>__getstate__\<close> then gives the
  same tuple back. Nothing is compared with \<open>feat_dim\<close> or \<open>num_phi\<close>.
\<close>

theorem setstate_restores_unchecked:
  "fst (setstate s st) = Inr ()
   \<and> is_fitted (snd (setstate s st))
   \<and> getstate (snd (setstate s st)) = Inr st"
  by (simp add: setstate_def split_beta is_fitted_def getstate_def get_attr_def)

text \<open>
  A state whose \<open>Phi\<close> is 1 by 1 although it says \<open>feat_dim\<close> = 3 and \<open>num_phi\<close> = 2,
  restored into an object made with \<open>num_phi\<close> = 5: it is accepted as it is.
\<close>

theorem setstate_accepts_inconsistent:
  "\<not> spec_states_consistent
       (2, 12, Some 3, Some [0, 1], 0, (), ''float64'', (),
        Some (eye 3), Some (zeros 1 1), Some (zeros 3 3), Some (zeros 3 3),
        eye 2, zeros 3 2, eye 2, zeros 2 2)
   \<and> setstate (PLDA_init 5 12 () None ''float64'' () 0 Missing)
       (2, 12, Some 3, Some [0, 1], 0, (), ''float64'', (),
        Some (eye 3), Some (zeros 1 1), Some (zeros 3 3), Some (zeros 3 3),
        eye 2, zeros 3 2, eye 2, zeros 2 2)
     = (Inr (),
        \<lparr>num_phi = 2, num_iter = 12, feat_dim = Some 3, labels = Some [0, 1], verbose = 0,
         normalizer = (), dtype = ''float64'', rand_state = (),
         Sigma_m = Some (eye 3), Phi_m = Some (zeros 1 1),
         Sb_m = Some (zeros 3 3), St_m = Some (zeros 3 3),
         Lambda_m = Attr (eye 2), Uk_m = Attr (zeros 3 2), Q_hat_m = Attr (eye 2),
         X_model_m = Attr (zeros 2 2), num_classes_attr = Missing\<rparr>)"
  by (simp add: spec_states_consistent_def setstate_def PLDA_init_def zeros_def mk_mat_def nrows_def)

subsection \<open>PLDA: \<open>initialize\<close>\<close>

lemma initialize_fresh_narrow:
  assumes "int fd \<le> num_phi s"
  shows "initialize_fresh K s fd labs
         = (Inl (RuntimeError ''feat_dim must be greater than num_phi''),
            s\<lparr>feat_dim := Some fd,
              labels := Some (case labels s of None \<Rightarrow> labs | Some l \<Rightarrow> l)\<rparr>)"
  using assms by (cases "labels s") (simp_all add: initialize_fresh_def Let_def)

lemma initialize_validate_state: "snd (initialize_validate s fd labs) = s"
  by (cases "labels s") (simp_all add: initialize_validate_def num_classes_def)

text \<open>
  C6. Let \<open>X\<close> have no more columns than \<open>num_phi\<close>. The first call of
  \<open>initialize(X, labels)\<close>, on an object whose \<open>feat_dim\<close> is still \<open>None\<close>, raises the
  \<open>RuntimeError\<close> that \<open>feat_dim\<close> must be greater than \<open>num_phi\<close>, whatever the entries of
  \<open>X\<close> and the labels are; it has assigned \<open>_feat_dim\<close> and \<open>_labels\<close> and nothing else.
  No call of \<open>initialize\<close> with such an \<open>X\<close>, in any state of the object, assigns
  \<open>Sigma_\<close>, \<open>Phi_\<close>, \<open>Sb_\<close> or \<open>St_\<close> or changes \<open>num_phi\<close>: the object stays
  uninitialized.
\<close>

theorem initialize_rejects_narrow:
  assumes "int (ncols X) \<le> num_phi s"
  shows "(feat_dim s = None \<longrightarrow>
            initialize K s X labs
            = (Inl (RuntimeError ''feat_dim must be greater than num_phi''),
               s\<lparr>feat_dim := Some (ncols X),
                 labels := Some (case labels s of None \<Rightarrow> labs | Some l \<Rightarrow> l)\<rparr>))
       \<and> Sigma_m (snd (initialize K s X labs)) = Sigma_m s
       \<and> Phi_m (snd (initialize K s X labs)) = Phi_m s
       \<and> Sb_m (snd (initialize K s X labs)) = Sb_m s
       \<and> St_m (snd (initialize K s X labs)) = St_m s
       \<and> num_phi (snd (initialize K s X labs)) = num_phi s"
proof -
  note f = initialize_fresh_narrow [OF assms, of K labs]
  have 1: "feat_dim s = None \<Longrightarrow> initialize K s X labs
            = (Inl (RuntimeError ''feat_dim must be greater than num_phi''),
               s\<lparr>feat_dim := Some (ncols X),
                 labels := Some (case labels s of None \<Rightarrow> labs | Some l \<Rightarrow> l)\<rparr>)"
    by (simp add: initialize_def Let_def f)
  have 2: "\<exists>fd ls. snd (initialize K s X labs) = s \<or>
          snd (initialize K s X labs) = s\<lparr>feat_dim := fd, labels := ls\<rparr>"
  proof (cases "feat_dim s")
    case None
    then show ?thesis using 1 by (metis snd_conv)
  next
    case (Some d)
    show ?thesis
    proof (cases "num_classes_attr s")
      case Missing
      then show ?thesis using Some by (simp add: initialize_def Let_def)
    next
      case (Attr a)
      show ?thesis
      proof (cases a)
        case None
        then have "initialize K s X labs
            = (Inl (RuntimeError ''feat_dim must be greater than num_phi''),
               s\<lparr>feat_dim := Some (ncols X),
                 labels := Some (case labels s of None \<Rightarrow> labs | Some l \<Rightarrow> l)\<rparr>)"
          using Some Attr by (simp add: initialize_def Let_def f)
        then show ?thesis by (metis snd_conv)
      next
        case (Some k)
        then show ?thesis using \<open>feat_dim s = Some d\<close> Attr
          by (simp add: initialize_def Let_def initialize_validate_state)
      qed
    qed
  qed
  then obtain fd ls where "snd (initialize K s X labs) = s \<or>
          snd (initialize K s X labs) = s\<lparr>feat_dim := fd, labels := ls\<rparr>" by blast
  then have 3: "Sigma_m (snd (initialize K s X labs)) = Sigma_m s
       \<and> Phi_m (snd (initialize K s X labs)) = Phi_m s
       \<and> Sb_m (snd (initialize K s X labs)) = Sb_m s
       \<and> St_m (snd (initialize K s X labs)) = St_m s
       \<and> num_phi (snd (initialize K s X labs)) = num_phi s"
    by auto
  show ?thesis using 1 3 by blast
qed

theorem initialize_rejects_narrow_witness:
  "initialize example_library (PLDA_init 3 12 () None ''float64'' () 0 Missing) example_X [0, 1]
     = (Inl (RuntimeError ''feat_dim must be greater than num_phi''),
        (PLDA_init 3 12 () None ''float64'' () 0 Missing)\<lparr>feat_dim := Some 3, labels := Some [0, 1]\<rparr>)
   \<and> Sigma_m (snd (initialize example_library (PLDA_init 3 12 () None ''float64'' () 0 Missing)
                      example_X [0, 1])) = None"
  using initialize_rejects_narrow
          [of example_X "PLDA_init 3 12 () None ''float64'' () 0 Missing" example_library "[0, 1]"]
  by (simp add: PLDA_init_def example_X_def)

subsection \<open>PLDA: the maximization step\<close>

lemma maximization_plda_success:
  assumes "maximization_plda K s X X_sqr F Ey Eyy = (Inr (), s')"
  shows "\<exists>Ey_FT Z PE D.
           np_dot (transpose_mat Ey) F = Inr Ey_FT
         \<and> k_solve K (transpose_mat Eyy) Ey_FT = Inr Z
         \<and> np_dot (transpose_mat Z) Ey_FT = Inr PE
         \<and> np_elementwise (-) X_sqr PE = Inr D
         \<and> nrows X \<noteq> 0
         \<and> s' = s\<lparr>Phi_m := Some (transpose_mat Z),
                  Sigma_m := Some (smult (1 / real (nrows X)) D)\<rparr>"
proof -
  obtain Ey_FT where a: "np_dot (transpose_mat Ey) F = Inr Ey_FT"
    using assms by (cases "np_dot (transpose_mat Ey) F") (simp_all add: maximization_plda_def)
  obtain Z where b: "k_solve K (transpose_mat Eyy) Ey_FT = Inr Z"
    using assms a by (cases "k_solve K (transpose_mat Eyy) Ey_FT") (simp_all add: maximization_plda_def)
  have n: "nrows X \<noteq> 0"
    using assms a b by (auto simp: maximization_plda_def Let_def split: if_splits)
  obtain PE where c: "np_dot (transpose_mat Z) Ey_FT = Inr PE"
    using assms a b n by (cases "np_dot (transpose_mat Z) Ey_FT") (simp_all add: maximization_plda_def Let_def)
  obtain D where d: "np_elementwise (-) X_sqr PE = Inr D"
    using assms a b n c by (cases "np_elementwise (-) X_sqr PE") (simp_all add: maximization_plda_def Let_def)
  have "s' = s\<lparr>Phi_m := Some (transpose_mat Z), Sigma_m := Some (smult (1 / real (nrows X)) D)\<rparr>"
    using assms a b n c d by (simp add: maximization_plda_def Let_def)
  then show ?thesis using a b c d n by blast
qed

lemma em_iteration_success:
  assumes "em_iteration K X X_sqr F y_counts s = (Inr (), s')"
  shows "\<exists>Ey Eyy. expectation_plda K s F y_counts = Inr (Ey, Eyy)
           \<and> maximization_plda K s X X_sqr F Ey Eyy = (Inr (), s')"
proof -
  obtain Ey Eyy where e: "expectation_plda K s F y_counts = Inr (Ey, Eyy)"
    using assms by (cases "expectation_plda K s F y_counts") (auto simp: em_iteration_def)
  obtain r s1 where m: "maximization_plda K s X X_sqr F Ey Eyy = (r, s1)"
    by (cases "maximization_plda K s X X_sqr F Ey Eyy")
  have "r = Inr () \<and> s1 = s'"
    using assms e m
    by (cases r; cases "compute_llk K s1 X") (auto simp: em_iteration_def split: if_splits)
  then show ?thesis using e m by blast
qed

text \<open>
  C3, as amended. In every round of the EM loop that completes, \<open>Phi_\<close> becomes the
  transpose of \<open>Z\<close>, where \<open>Z\<close> is what \<open>solve\<close> returns for the transpose of \<open>Eyy\<close> and
  \<open>Ey\<^sup>T F\<close> (so \<open>Eyy\<^sup>T Z = Ey\<^sup>T F\<close>), and \<open>Sigma_\<close> becomes
  \<open>(X_sqr - Phi (Ey\<^sup>T F)) / num_samples\<close>, where \<open>Ey\<close> and \<open>Eyy\<close> are the results of the
  expectation step on the object as the round found it, \<open>X_sqr\<close> is \<open>X\<^sup>T X\<close> as \<open>fit\<close>
  passes it, and \<open>num_samples\<close>, the number of rows of \<open>X\<close>, is not 0.
\<close>

theorem em_iteration_maximization:
  assumes "em_iteration K X X_sqr F y_counts s = (Inr (), s')"
    and "np_dot (transpose_mat X) X = Inr X_sqr"
  shows "\<exists>Ey Eyy Ey_FT Z PE D.
           expectation_plda K s F y_counts = Inr (Ey, Eyy)
         \<and> np_dot (transpose_mat Ey) F = Inr Ey_FT
         \<and> k_solve K (transpose_mat Eyy) Ey_FT = Inr Z
         \<and> Phi_m s' = Some (transpose_mat Z)
         \<and> np_dot (transpose_mat Z) Ey_FT = Inr PE
         \<and> np_elementwise (-) X_sqr PE = Inr D
         \<and> nrows X \<noteq> 0
         \<and> Sigma_m s' = Some (smult (1 / real (nrows X)) D)"
proof -
  obtain Ey Eyy where e: "expectation_plda K s F y_counts = Inr (Ey, Eyy)"
    and m: "maximization_plda K s X X_sqr F Ey Eyy = (Inr (), s')"
    using em_iteration_success [OF assms(1)] by blast
  obtain Ey_FT Z PE D where
    "np_dot (transpose_mat Ey) F = Inr Ey_FT"
    "k_solve K (transpose_mat Eyy) Ey_FT = Inr Z"
    "np_dot (transpose_mat Z) Ey_FT = Inr PE"
    "np_elementwise (-) X_sqr PE = Inr D"
    "nrows X \<noteq> 0"
    "s' = s\<lparr>Phi_m := Some (transpose_mat Z), Sigma_m := Some (smult (1 / real (nrows X)) D)\<rparr>"
    using maximization_plda_success [OF m] by blast
  then show ?thesis using e by auto
qed

lemma example_expectation:
  "expectation_plda example_library example_plda example_X [1, 1]
   = Inr (\<lparr>ncols = 2, rows = [[1 / 2, 0], [- (1 / 4), 1 / 2]]\<rparr>,
          \<lparr>ncols = 2, rows = [[21 / 16, 3 / 8], [- (1 / 8), 5 / 4]]\<rparr>)"
  by code_simp

lemma example_maximization:
  "maximization_plda example_library example_plda example_X
      \<lparr>ncols = 3, rows = [[1, 0, 0], [0, 1, 0], [0, 0, 0]]\<rparr> example_X
      \<lparr>ncols = 2, rows = [[1 / 2, 0], [- (1 / 4), 1 / 2]]\<rparr>
      \<lparr>ncols = 2, rows = [[21 / 16, 3 / 8], [- (1 / 8), 5 / 4]]\<rparr>
   = (Inr (),
      example_plda
        \<lparr>Phi_m := Some \<lparr>ncols = 2, rows = [[10 / 27, - (1 / 9)], [- (4 / 27), 4 / 9], [0, 0]]\<rparr>,
         Sigma_m := Some \<lparr>ncols = 3, rows = [[11 / 27, 2 / 27, 0], [1 / 27, 10 / 27, 0], [0, 0, 0]]\<rparr>\<rparr>)"
  by code_simp

lemma example_em_iteration:
  "em_iteration example_library example_X
      \<lparr>ncols = 3, rows = [[1, 0, 0], [0, 1, 0], [0, 0, 0]]\<rparr> example_X [1, 1] example_plda
   = (Inr (),
      example_plda
        \<lparr>Phi_m := Some \<lparr>ncols = 2, rows = [[10 / 27, - (1 / 9)], [- (4 / 27), 4 / 9], [0, 0]]\<rparr>,
         Sigma_m := Some \<lparr>ncols = 3, rows = [[11 / 27, 2 / 27, 0], [1 / 27, 10 / 27, 0], [0, 0, 0]]\<rparr>\<rparr>)"
  by (simp only: em_iteration_def example_expectation eval_in_Inr prod.case
        example_maximization and_then_Inr)
     (simp add: example_plda_def PLDA_init_def)

text \<open>
  One round on the example object (two samples [1, 0, 0] and [0, 1, 0] of the classes
  0 and 1, so that \<open>F = X\<close>): the expectation step gives an \<open>Eyy\<close> that is not symmetric,
  and the new \<open>Phi_\<close> is not the transpose of the solution of \<open>Eyy Z = Ey\<^sup>T F\<close>.
\<close>

theorem maximization_solves_transposed_system:
  "fit_class_sums example_plda example_X [0, 1] = Inr example_X
   \<and> np_dot (transpose_mat example_X) example_X
       = Inr \<lparr>ncols = 3, rows = [[1, 0, 0], [0, 1, 0], [0, 0, 0]]\<rparr>
   \<and> expectation_plda example_library example_plda example_X [1, 1]
       = Inr (\<lparr>ncols = 2, rows = [[1 / 2, 0], [- (1 / 4), 1 / 2]]\<rparr>,
              \<lparr>ncols = 2, rows = [[21 / 16, 3 / 8], [- (1 / 8), 5 / 4]]\<rparr>)
   \<and> Phi_m (snd (em_iteration example_library example_X
                    \<lparr>ncols = 3, rows = [[1, 0, 0], [0, 1, 0], [0, 0, 0]]\<rparr> example_X [1, 1]
                    example_plda))
       = Some \<lparr>ncols = 2, rows = [[10 / 27, - (1 / 9)], [- (4 / 27), 4 / 9], [0, 0]]\<rparr>
   \<and> np_dot (transpose_mat \<lparr>ncols = 2, rows = [[1 / 2, 0], [- (1 / 4), 1 / 2]]\<rparr>) example_X
       = Inr \<lparr>ncols = 3, rows = [[1 / 2, - (1 / 4), 0], [0, 1 / 2, 0]]\<rparr>
   \<and> k_solve example_library \<lparr>ncols = 2, rows = [[21 / 16, 3 / 8], [- (1 / 8), 5 / 4]]\<rparr>
        \<lparr>ncols = 3, rows = [[1 / 2, - (1 / 4), 0], [0, 1 / 2, 0]]\<rparr>
       = Inr \<lparr>ncols = 3, rows = [[10 / 27, - (8 / 27), 0], [1 / 27, 10 / 27, 0]]\<rparr>
   \<and> transpose_mat \<lparr>ncols = 3, rows = [[10 / 27, - (8 / 27), 0], [1 / 27, 10 / 27, 0]]\<rparr>
       \<noteq> \<lparr>ncols = 2, rows = [[10 / 27, - (1 / 9)], [- (4 / 27), 4 / 9], [0, 0]]\<rparr>
   \<and> np_dot \<lparr>ncols = 2, rows = [[21 / 16, 3 / 8], [- (1 / 8), 5 / 4]]\<rparr>
        (transpose_mat \<lparr>ncols = 2, rows = [[10 / 27, - (1 / 9)], [- (4 / 27), 4 / 9], [0, 0]]\<rparr>)
       \<noteq> Inr \<lparr>ncols = 3, rows = [[1 / 2, - (1 / 4), 0], [0, 1 / 2, 0]]\<rparr>"
proof (intro conjI)
  show "fit_class_sums example_plda example_X [0, 1] = Inr example_X" by code_simp
  show "np_dot (transpose_mat example_X) example_X
       = Inr \<lparr>ncols = 3, rows = [[1, 0, 0], [0, 1, 0], [0, 0, 0]]\<rparr>" by code_simp
  show "expectation_plda example_library example_plda example_X [1, 1]
       = Inr (\<lparr>ncols = 2, rows = [[1 / 2, 0], [- (1 / 4), 1 / 2]]\<rparr>,
              \<lparr>ncols = 2, rows = [[21 / 16, 3 / 8], [- (1 / 8), 5 / 4]]\<rparr>)"
    by (rule example_expectation)
  show "Phi_m (snd (em_iteration example_library example_X
                    \<lparr>ncols = 3, rows = [[1, 0, 0], [0, 1, 0], [0, 0, 0]]\<rparr> example_X [1, 1]
                    example_plda))
       = Some \<lparr>ncols = 2, rows = [[10 / 27, - (1 / 9)], [- (4 / 27), 4 / 9], [0, 0]]\<rparr>"
    unfolding example_em_iteration by simp
  show "np_dot (transpose_mat \<lparr>ncols = 2, rows = [[1 / 2, 0], [- (1 / 4), 1 / 2]]\<rparr>) example_X
       = Inr \<lparr>ncols = 3, rows = [[1 / 2, - (1 / 4), 0], [0, 1 / 2, 0]]\<rparr>" by code_simp
  show "k_solve example_library \<lparr>ncols = 2, rows = [[21 / 16, 3 / 8], [- (1 / 8), 5 / 4]]\<rparr>
        \<lparr>ncols = 3, rows = [[1 / 2, - (1 / 4), 0], [0, 1 / 2, 0]]\<rparr>
       = Inr \<lparr>ncols = 3, rows = [[10 / 27, - (8 / 27), 0], [1 / 27, 10 / 27, 0]]\<rparr>" by code_simp
  show "transpose_mat \<lparr>ncols = 3, rows = [[10 / 27, - (8 / 27), 0], [1 / 27, 10 / 27, 0]]\<rparr>
       \<noteq> \<lparr>ncols = 2, rows = [[10 / 27, - (1 / 9)], [- (4 / 27), 4 / 9], [0, 0]]\<rparr>" by code_simp
  show "np_dot \<lparr>ncols = 2, rows = [[21 / 16, 3 / 8], [- (1 / 8), 5 / 4]]\<rparr>
        (transpose_mat \<lparr>ncols = 2, rows = [[10 / 27, - (1 / 9)], [- (4 / 27), 4 / 9], [0, 0]]\<rparr>)
       \<noteq> Inr \<lparr>ncols = 3, rows = [[1 / 2, - (1 / 4), 0], [0, 1 / 2, 0]]\<rparr>" by code_simp
qed

theorem em_iteration_maximization_witness:
  "\<exists>Ey Eyy Ey_FT Z PE D.
       expectation_plda example_library example_plda example_X [1, 1] = Inr (Ey, Eyy)
     \<and> np_dot (transpose_mat Ey) example_X = Inr Ey_FT
     \<and> exact_solve (transpose_mat Eyy) Ey_FT = Inr Z
     \<and> Some \<lparr>ncols = 2, rows = [[10 / 27, - (1 / 9)], [- (4 / 27), 4 / 9], [0, 0]]\<rparr>
         = Some (transpose_mat Z)
     \<and> np_dot (transpose_mat Z) Ey_FT = Inr PE
     \<and> np_elementwise (-) \<lparr>ncols = 3, rows = [[1, 0, 0], [0, 1, 0], [0, 0, 0]]\<rparr> PE = Inr D
     \<and> Some \<lparr>ncols = 3, rows = [[11 / 27, 2 / 27, 0], [1 / 27, 10 / 27, 0], [0, 0, 0]]\<rparr>
         = Some (smult (1 / 2) D)"
proof -
  have "np_dot (transpose_mat example_X) example_X
        = Inr \<lparr>ncols = 3, rows = [[1, 0, 0], [0, 1, 0], [0, 0, 0]]\<rparr>"
    by code_simp
  from em_iteration_maximization [OF example_em_iteration this]
  show ?thesis by (simp add: example_library_def example_X_def nrows_def)
qed

subsection \<open>PLDA: labels that are not row indices of \<open>F\<close>\<close>

lemma nrows_mk_mat [simp]: "nrows (mk_mat r c f) = r"
  by (simp add: nrows_def mk_mat_def)

lemma ncols_mk_mat [simp]: "ncols (mk_mat r c f) = c"
  by (simp add: mk_mat_def)

lemma fold_err_reaches_error:
  assumes step: "\<And>x F. x \<in> set xs \<Longrightarrow> P F \<Longrightarrow> f x F = Inl e \<or> (\<exists>F'. f x F = Inr F' \<and> P F')"
    and bad: "\<exists>x\<in>set xs. \<forall>F. P F \<longrightarrow> f x F = Inl e"
    and init: "P F0"
  shows "fold_err f xs F0 = Inl e"
  using assms
proof (induction xs arbitrary: F0)
  case Nil
  then show ?case by simp
next
  case (Cons x xs)
  show ?case
  proof (cases "f x F0")
    case (Inl e')
    then have "e' = e" using Cons.prems(1) [of x F0] Cons.prems(3) by auto
    then show ?thesis using Inl by simp
  next
    case (Inr F1)
    then have P1: "P F1" using Cons.prems(1) [of x F0] Cons.prems(3) by auto
    have "\<not> (\<forall>F. P F \<longrightarrow> f x F = Inl e)" using Inr Cons.prems(3) by auto
    then have bad': "\<exists>x\<in>set xs. \<forall>F. P F \<longrightarrow> f x F = Inl e" using Cons.prems(2) by auto
    have "fold_err f xs F1 = Inl e"
      by (rule Cons.IH [OF _ bad' P1]) (simp add: Cons.prems(1))
    then show ?thesis using Inr by simp
  qed
qed

lemma masked_column_sums_outcome:
  "masked_column_sums X msk = Inl IndexError
   \<or> (\<exists>v. masked_column_sums X msk = Inr v \<and> length v = ncols X)"
  by (simp add: masked_column_sums_def)

lemma assign_row_outcome:
  assumes "length v = ncols E"
  shows "assign_row E i v = Inl IndexError
         \<or> (\<exists>E'. assign_row E i v = Inr E' \<and> nrows E' = nrows E \<and> ncols E' = ncols E)"
proof (cases "norm_index (nrows E) i")
  case (Inl e)
  then have "e = IndexError" by (auto simp: norm_index_def split: if_splits)
  then show ?thesis using Inl by (simp add: assign_row_def)
next
  case (Inr k)
  then show ?thesis using assms by (simp add: assign_row_def broadcast_vec_def nrows_def)
qed

lemma assign_row_out_of_range: "int (nrows E) \<le> i \<Longrightarrow> assign_row E i v = Inl IndexError"
  by (simp add: assign_row_def norm_index_def)

lemma accumulate_class_outcome:
  assumes "ncols F = ncols X"
  shows "accumulate_class X y clz F = Inl IndexError
         \<or> (\<exists>F'. accumulate_class X y clz F = Inr F' \<and> nrows F' = nrows F \<and> ncols F' = ncols F)"
  using masked_column_sums_outcome [of X "map (\<lambda>t. t = clz) y"]
proof
  assume "masked_column_sums X (map (\<lambda>t. t = clz) y) = Inl IndexError"
  then show ?thesis by (simp add: accumulate_class_def)
next
  assume "\<exists>v. masked_column_sums X (map (\<lambda>t. t = clz) y) = Inr v \<and> length v = ncols X"
  then obtain v where v: "masked_column_sums X (map (\<lambda>t. t = clz) y) = Inr v"
    and l: "length v = ncols F" using assms by auto
  show ?thesis using assign_row_outcome [OF l, of clz] by (simp add: accumulate_class_def v)
qed

lemma accumulate_class_out_of_range:
  assumes "int (nrows F) \<le> clz"
  shows "accumulate_class X y clz F = Inl IndexError"
  using masked_column_sums_outcome [of X "map (\<lambda>t. t = clz) y"]
  by (auto simp: accumulate_class_def assign_row_out_of_range [OF assms])

lemma length_np_unique: "length (np_unique y) = card (set y)"
  by (simp add: np_unique_def length_remdups_card_conv)

lemma set_np_unique: "set (np_unique y) = set y"
  by (simp add: np_unique_def)

lemma fit_class_sums_out_of_range:
  assumes "v \<in> set y" and "int (card (set y)) \<le> v"
    and "feat_dim s = Some (ncols X)" and "num_classes s = Inr (card (set y))"
  shows "fit_class_sums s X y = Inl IndexError"
proof -
  let ?P = "\<lambda>F. nrows F = card (set y) \<and> ncols F = ncols X"
  have "fold_err (accumulate_class X y) (np_unique y) (zeros (card (set y)) (ncols X))
        = Inl IndexError"
  proof (rule fold_err_reaches_error [where P = ?P])
    fix c F assume "?P F"
    then show "accumulate_class X y c F = Inl IndexError
               \<or> (\<exists>F'. accumulate_class X y c F = Inr F' \<and> ?P F')"
      using accumulate_class_outcome [of F X y c] by auto
  next
    show "\<exists>c\<in>set (np_unique y). \<forall>F. ?P F \<longrightarrow> accumulate_class X y c F = Inl IndexError"
      using assms(1,2) by (auto simp: set_np_unique intro!: bexI [of _ v] accumulate_class_out_of_range)
  next
    show "?P (zeros (card (set y)) (ncols X))" by (simp add: zeros_def)
  qed
  then show ?thesis by (simp add: fit_class_sums_def assms(3,4))
qed

lemma and_then_success:
  assumes "and_then r k = (Inr x, s')"
  obtains a s1 where "r = (Inr a, s1)" and "k a s1 = (Inr x, s')"
  using assms by (cases r; cases "fst r") (auto simp: and_then_def)

lemma eval_in_success:
  assumes "eval_in m s k = (Inr x, s')"
  obtains a where "m = Inr a" and "k a = (Inr x, s')"
  using assms by (cases m) (auto simp: eval_in_def)

lemma initialize_validate_success:
  assumes "initialize_validate s fd labs = (Inr (), s')"
  shows "s' = s \<and> feat_dim s = Some fd \<and> num_classes s = Inr (length labs)"
  using assms
  by (cases "num_classes s") (auto simp: initialize_validate_def split: if_splits)

lemma initialize_success:
  assumes "initialize K s X labs = (Inr (), s')"
  shows "feat_dim s' = Some (ncols X) \<and> num_classes s' = Inr (length labs)"
proof -
  from assms obtain a s1 where "initialize_validate s1 (ncols X) labs = (Inr (), s')"
    unfolding initialize_def Let_def by (rule and_then_success)
  then show ?thesis using initialize_validate_success by blast
qed

lemma fit_prepare_success:
  assumes "fit_prepare K s X y = (Inr (y_counts, classes, Xn), s1)"
  shows "feat_dim s1 = Some (ncols Xn) \<and> num_classes s1 = Inr (card (set y))"
proof -
  have len: "nrows X = length y"
    using assms by (auto simp: fit_prepare_def split: if_splits)
  then have e: "eval_in (np_bincount y) s (\<lambda>y_counts.
        let classes = np_unique y in
        eval_in (k_norm_fit K (normalizer s) X y) s (\<lambda>nrm.
        let s1 = s\<lparr>normalizer := nrm\<rparr> in
        eval_in (k_norm_transform K nrm X) s1 (\<lambda>Xn.
        and_then (initialize K s1 Xn classes) (\<lambda>_ s2.
          (Inr (y_counts, classes, Xn), s2))))) = (Inr (y_counts, classes, Xn), s1)"
    using assms by (simp add: fit_prepare_def)
  from e obtain yc where 1: "eval_in (k_norm_fit K (normalizer s) X y) s (\<lambda>nrm.
        let s1 = s\<lparr>normalizer := nrm\<rparr> in
        eval_in (k_norm_transform K nrm X) s1 (\<lambda>Xn.
        and_then (initialize K s1 Xn (np_unique y)) (\<lambda>_ s2.
          (Inr (yc, np_unique y, Xn), s2)))) = (Inr (y_counts, classes, Xn), s1)"
    by (rule eval_in_success) (simp add: Let_def)
  from 1 obtain nrm where 2: "eval_in (k_norm_transform K nrm X) (s\<lparr>normalizer := nrm\<rparr>) (\<lambda>Xn.
        and_then (initialize K (s\<lparr>normalizer := nrm\<rparr>) Xn (np_unique y)) (\<lambda>_ s2.
          (Inr (yc, np_unique y, Xn), s2))) = (Inr (y_counts, classes, Xn), s1)"
    by (rule eval_in_success) (simp add: Let_def)
  from 2 obtain Xn' where 3: "and_then (initialize K (s\<lparr>normalizer := nrm\<rparr>) Xn' (np_unique y))
       (\<lambda>_ s2. (Inr (yc, np_unique y, Xn'), s2)) = (Inr (y_counts, classes, Xn), s1)"
    by (rule eval_in_success)
  from 3 obtain a s2 where 4: "initialize K (s\<lparr>normalizer := nrm\<rparr>) Xn' (np_unique y) = (Inr a, s2)"
    and 5: "(Inr (yc, np_unique y, Xn'), s2) = (Inr (y_counts, classes, Xn), s1)"
    by (rule and_then_success) blast
  from 5 have "Xn' = Xn" "s2 = s1" by simp_all
  with 4 have "initialize K (s\<lparr>normalizer := nrm\<rparr>) Xn (np_unique y) = (Inr (), s1)" by simp
  then show ?thesis using initialize_success by (fastforce simp: length_np_unique)
qed

lemma fit_negative_label:
  assumes "\<exists>v\<in>set y. v < 0" and "nrows X = length y"
  shows "fit K s X y = (Inl (ValueError ''bincount: negative elements''), s)"
proof -
  have "np_bincount y = Inl (ValueError ''bincount: negative elements'')"
    using assms(1) by (simp add: np_bincount_def)
  then have "fit_prepare K s X y = (Inl (ValueError ''bincount: negative elements''), s)"
    using assms(2) by (simp add: fit_prepare_def)
  then show ?thesis by (simp add: fit_def)
qed

text \<open>
  C9, as amended. \<open>F\<close> has one row for each distinct label and is indexed by the label
  itself. If some label is greater than or equal to the number of distinct labels, \<open>fit\<close>
  raises an exception and never completes. When the steps of \<open>fit\<close> before \<open>F\<close> is filled
  all succeed (the sizes of \<open>X\<close> and \<open>y\<close> agree, \<open>np.bincount\<close> finds no negative
  label, the normalizer and \<open>initialize\<close> raise nothing), the exception is \<open>IndexError\<close>,
  raised while \<open>F\<close> is filled, before the EM loop starts, and the object is as
  \<open>initialize\<close> left it. When one of those steps raises, \<open>fit\<close> raises its exception:
  when the sizes agree and some label is negative, that is the \<open>ValueError\<close> of
  \<open>np.bincount\<close>, and the object is untouched.
\<close>

theorem fit_label_out_of_range:
  assumes "v \<in> set y" and "int (card (set y)) \<le> v"
  shows "isl (fst (fit K s X y))
       \<and> (\<forall>r s1. fit_prepare K s X y = (Inr r, s1) \<longrightarrow> fit K s X y = (Inl IndexError, s1))
       \<and> (\<forall>e s1. fit_prepare K s X y = (Inl e, s1) \<longrightarrow> fit K s X y = (Inl e, s1))
       \<and> ((\<exists>u\<in>set y. u < 0) \<and> nrows X = length y \<longrightarrow>
            fit K s X y = (Inl (ValueError ''bincount: negative elements''), s))"
proof -
  have pre: "fit K s X y = (Inl e, s1)" if "fit_prepare K s X y = (Inl e, s1)" for e s1
    using that by (simp add: fit_def)
  have ok: "fit K s X y = (Inl IndexError, s1)" if p: "fit_prepare K s X y = (Inr r, s1)" for r s1
  proof -
    obtain y_counts classes Xn where r: "r = (y_counts, classes, Xn)" by (cases r)
    have "fit_class_sums s1 Xn y = Inl IndexError"
      using fit_prepare_success [OF p [unfolded r]] assms
      by (intro fit_class_sums_out_of_range) simp_all
    then show ?thesis by (simp add: fit_def p r)
  qed
  have "isl (fst (fit K s X y))"
  proof (cases "fit_prepare K s X y")
    case (Pair r0 s1)
    show ?thesis
    proof (cases r0)
      case (Inl e)
      then show ?thesis using Pair by (simp add: fit_def)
    next
      case (Inr r)
      then show ?thesis using ok Pair by simp
    qed
  qed
  then show ?thesis using ok pre fit_negative_label [of y X K s] by blast
qed

theorem fit_label_out_of_range_witness:
  "fst (fit example_library (PLDA_init 2 1 () None ''float64'' () 0 Missing) example_X [0, 2])
   = Inl IndexError"
proof -
  let ?s = "PLDA_init 2 1 () None ''float64'' () 0 Missing :: (unit, unit) plda"
  have h: "(2::int) \<in> set [0, 2]" "int (card (set [0, 2::int])) \<le> 2" by simp_all
  have "\<not> isl (fst (fit_prepare example_library ?s example_X [0, 2]))" by code_simp
  then obtain r s1 where "fit_prepare example_library ?s example_X [0, 2] = (Inr r, s1)"
    by (cases "fit_prepare example_library ?s example_X [0, 2]";
        cases "fst (fit_prepare example_library ?s example_X [0, 2])") auto
  then have "fit example_library ?s example_X [0, 2] = (Inl IndexError, s1)"
    using fit_label_out_of_range [OF h, of example_library ?s example_X] by blast
  then show ?thesis by simp
qed

text \<open>
  The labels [-1, 2] hold a value, 2, that is not below the number of distinct labels,
  and \<open>fit\<close> does not raise \<open>IndexError\<close> on them: \<open>np.bincount\<close>, which comes first,
  raises \<open>ValueError\<close> for the negative label.
\<close>

theorem fit_negative_label_not_index_error:
  "(2::int) \<in> set [- 1, 2]
   \<and> int (card (set [- 1, 2 :: int])) \<le> 2
   \<and> fit example_library (PLDA_init 2 1 () None ''float64'' () 0 Missing) example_X [- 1, 2]
       = (Inl (ValueError ''bincount: negative elements''),
          PLDA_init 2 1 () None ''float64'' () 0 Missing)
   \<and> fst (fit example_library (PLDA_init 2 1 () None ''float64'' () 0 Missing) example_X [- 1, 2])
       \<noteq> Inl IndexError"
proof -
  have "fit example_library (PLDA_init 2 1 () None ''float64'' () 0 Missing) example_X [- 1, 2]
       = (Inl (ValueError ''bincount: negative elements''),
          PLDA_init 2 1 () None ''float64'' () 0 Missing)"
    by (rule fit_negative_label) (simp_all add: example_X_def nrows_def)
  then show ?thesis by simp
qed

end
